theory Spec2Isabelle
  imports Complex_Main "HOL-Library.Sublist"
begin

section \<open>JavaScript values, errors and numbers\<close>

text \<open>
  The values that cross the client's interface untyped (\<open>unknown\<close> bodies, header
  objects, parsed JSON) are JavaScript values. Strings are byte strings (UTF-8).

  A number is a double: a finite value, held as the rational it denotes, one of the two
  infinities, or \<open>NaN\<close>.
\<close>

datatype js_number = Finite rat | PosInfinity | NegInfinity | NaN

datatype js_value =
    JUndefined
  | JNull
  | JBool bool
  | JNumber js_number
  | JString string
  | JArray "js_value list"
  | JObject "(string \<times> js_value) list"

text \<open>Reading a property: a missing key reads as \<open>undefined\<close>.\<close>

definition get_prop :: "(string \<times> js_value) list \<Rightarrow> string \<Rightarrow> js_value" where
  "get_prop obj k = (case map_of obj k of None \<Rightarrow> JUndefined | Some v \<Rightarrow> v)"

text \<open>
  What the schema library reports when a value has the wrong type: the type expected, the
  type received and the path of keys to the value.
\<close>

datatype zod_issue = InvalidType string string "string list"

text \<open>
  Thrown values. JavaScript throws any value: an \<open>Error\<close> object with its name and
  message, the schema library's error with its issues, a symbol with its description, or
  an object without a prototype.
\<close>

datatype js_error =
    Error string string
  | ZodError "zod_issue list"
  | Symbol string
  | NullPrototypeObject

text \<open>
  \<open>`${error}`\<close>, which can itself throw. For an \<open>Error\<close> object the text is that of
  \<open>Error.prototype.toString\<close>; the schema library renders its own issues, and that
  rendering \<open>zod_text\<close> is a parameter. A template literal does not convert a symbol, and
  an object without a prototype has no \<open>toString\<close>: both throw a \<open>TypeError\<close>.
\<close>

fun template_literal :: "(zod_issue list \<Rightarrow> string) \<Rightarrow> js_error \<Rightarrow> js_error + string" where
  "template_literal zod_text (Error name msg) =
     Inr (if name = [] then msg else if msg = [] then name else name @ '': '' @ msg)"
| "template_literal zod_text (ZodError issues) = Inr (zod_text issues)"
| "template_literal zod_text (Symbol description) =
     Inl (Error ''TypeError'' ''Cannot convert a Symbol value to a string'')"
| "template_literal zod_text NullPrototypeObject =
     Inl (Error ''TypeError'' ''Cannot convert object to primitive value'')"

subsection \<open>The surroundings of the client\<close>

record serializer =
  parse :: "string \<Rightarrow> js_error + js_value"
  stringify :: "js_value \<Rightarrow> js_error + string"

record encryptor =
  decrypt :: "string \<Rightarrow> js_error + string"
  encrypt :: "string \<Rightarrow> js_error + string"

text \<open>
  What the client takes from its surroundings: the global \<open>JSON\<close>, the constructor of the
  encryption library, the text the schema library gives its issues, and the arithmetic of
  doubles: \<open>round_double\<close> rounds a rational to the nearest double (or to an infinity) and
  \<open>Number_toString\<close> is the text of a finite double. Both are only asked about values
  that are not integers of magnitude up to \<open>2^53\<close>; on those integers rounding changes
  nothing and the text is the decimal numeral.
\<close>

record host =
  JSON :: serializer
  new_Encryptor :: "string \<Rightarrow> string list option \<Rightarrow> js_error + encryptor"
  zod_text :: "zod_issue list \<Rightarrow> string"
  round_double :: "rat \<Rightarrow> js_number"
  Number_toString :: "rat \<Rightarrow> string"

subsection \<open>Numbers\<close>

text \<open>An integer of magnitude up to \<open>2^53\<close>: every such value is a double.\<close>

definition safe_integer :: "rat \<Rightarrow> bool" where
  "safe_integer q = (of_int \<lfloor>q\<rfloor> = q \<and> \<bar>q\<bar> \<le> 9007199254740992)"

text \<open>The double that a rational result is rounded to.\<close>

definition to_double :: "host \<Rightarrow> rat \<Rightarrow> js_number" where
  "to_double h q = (if safe_integer q then Finite q else round_double h q)"

text \<open>\<open>!x\<close> for a number: zero and \<open>NaN\<close> are falsy.\<close>

fun falsy_number :: "js_number \<Rightarrow> bool" where
  "falsy_number (Finite q) = (q = 0)"
| "falsy_number NaN = True"
| "falsy_number PosInfinity = False"
| "falsy_number NegInfinity = False"

definition digit_char :: "nat \<Rightarrow> char" where
  "digit_char d = ''0123456789'' ! d"

fun show_nat :: "nat \<Rightarrow> string" where
  "show_nat n = (if n < 10 then [digit_char n] else show_nat (n div 10) @ [digit_char (n mod 10)])"

declare show_nat.simps [simp del]

text \<open>The decimal numeral of an integer.\<close>

definition show_int :: "int \<Rightarrow> string" where
  "show_int i = (if i < 0 then CHR ''-'' # show_nat (nat (- i)) else show_nat (nat i))"

text \<open>\<open>`${x}`\<close> for a number \<open>x\<close>.\<close>

fun number_to_string :: "host \<Rightarrow> js_number \<Rightarrow> string" where
  "number_to_string h (Finite q) =
     (if safe_integer q then show_int \<lfloor>q\<rfloor> else Number_toString h q)"
| "number_to_string h PosInfinity = ''Infinity''"
| "number_to_string h NegInfinity = ''-Infinity''"
| "number_to_string h NaN = ''NaN''"

declare number_to_string.simps(1) [simp del]

text \<open>A \<open>Date\<close> holds a time value in milliseconds, or is invalid (time value \<open>NaN\<close>).\<close>

datatype js_date = Date int | InvalidDate

text \<open>\<open>date.valueOf()\<close>.\<close>

fun date_valueOf :: "js_date \<Rightarrow> js_number" where
  "date_valueOf (Date ms) = Finite (of_int ms)"
| "date_valueOf InvalidDate = NaN"

subsection \<open>\<open>Number.parseFloat\<close> and \<open>new Date(number)\<close>\<close>

definition is_digit :: "char \<Rightarrow> bool" where
  "is_digit c = (c \<in> set ''0123456789'')"

text \<open>
  White space and line terminators at the head of a text, in UTF-8: the one-byte ones
  (tab, line feed, vertical tab, form feed, carriage return, space), the no-break space
  \<open>U+00A0\<close>, and the three-byte ones \<open>U+1680\<close>, \<open>U+2000\<close> to \<open>U+200A\<close>,
  \<open>U+2028\<close>, \<open>U+2029\<close>, \<open>U+202F\<close>, \<open>U+205F\<close>, \<open>U+3000\<close> and \<open>U+FEFF\<close>.
\<close>

definition space1 :: "char \<Rightarrow> bool" where
  "space1 a = (of_char a \<in> set [9, 10, 11, 12, 13, 32 :: nat])"

definition space2 :: "char \<Rightarrow> char \<Rightarrow> bool" where
  "space2 a b = (of_char a = (194 :: nat) \<and> of_char b = (160 :: nat))"

definition space3 :: "char \<Rightarrow> char \<Rightarrow> char \<Rightarrow> bool" where
  "space3 a b c =
     (let x = of_char a :: nat; y = of_char b :: nat; z = of_char c :: nat
      in (x = 225 \<and> y = 154 \<and> z = 128)
         \<or> (x = 226 \<and> y = 128 \<and> (128 \<le> z \<and> z \<le> 138 \<or> z = 168 \<or> z = 169 \<or> z = 175))
         \<or> (x = 226 \<and> y = 129 \<and> z = 159)
         \<or> (x = 227 \<and> y = 128 \<and> z = 128)
         \<or> (x = 239 \<and> y = 187 \<and> z = 191))"

text \<open>The text without its leading white space.\<close>

fun trim_start :: "string \<Rightarrow> string" where
  "trim_start (a # b # c # s) =
     (if space1 a then trim_start (b # c # s)
      else if space2 a b then trim_start (c # s)
      else if space3 a b c then trim_start s
      else a # b # c # s)"
| "trim_start [a, b] =
     (if space1 a then trim_start [b] else if space2 a b then [] else [a, b])"
| "trim_start [a] = (if space1 a then [] else [a])"
| "trim_start [] = []"

definition digits_value :: "string \<Rightarrow> nat" where
  "digits_value ds = foldl (\<lambda>a c. 10 * a + (of_char c - 48)) 0 ds"

text \<open>An optional sign in front of the rest of the text.\<close>

fun read_sign :: "string \<Rightarrow> bool \<times> string" where
  "read_sign [] = (False, [])"
| "read_sign (c # cs) =
     (if c = CHR ''-'' then (True, cs) else if c = CHR ''+'' then (False, cs) else (False, c # cs))"

text \<open>An optional fraction: a dot and the digits after it.\<close>

fun read_fraction :: "string \<Rightarrow> string \<times> string" where
  "read_fraction [] = ([], [])"
| "read_fraction (c # cs) =
     (if c = CHR ''.'' then (takeWhile is_digit cs, dropWhile is_digit cs) else ([], c # cs))"

text \<open>
  An optional exponent part: \<open>e\<close> or \<open>E\<close>, an optional sign and at least one digit. Without
  a digit the exponent indicator is not part of the number.
\<close>

fun read_exponent :: "string \<Rightarrow> int" where
  "read_exponent [] = 0"
| "read_exponent (c # cs) =
     (if c = CHR ''e'' \<or> c = CHR ''E'' then
        (case read_sign cs of (neg, ds) \<Rightarrow>
           (let e = takeWhile is_digit ds
            in if e = [] then 0 else if neg then - int (digits_value e) else int (digits_value e)))
      else 0)"

text \<open>
  \<open>Number.parseFloat\<close>: the longest prefix of the trimmed text that is a decimal literal,
  rounded to a double; \<open>NaN\<close> when there is none.
\<close>

definition parseFloat :: "host \<Rightarrow> string \<Rightarrow> js_number" where
  "parseFloat h s =
     (case read_sign (trim_start s) of (neg, u) \<Rightarrow>
        if take 8 u = ''Infinity'' then (if neg then NegInfinity else PosInfinity)
        else
          (let ip = takeWhile is_digit u;
               r1 = dropWhile is_digit u
           in case read_fraction r1 of (fp, r2) \<Rightarrow>
                if ip = [] \<and> fp = [] then NaN
                else
                  (let m = of_nat (digits_value ip) + of_nat (digits_value fp) / 10 ^ length fp;
                       e = read_exponent r2;
                       v = (if e < 0 then m / 10 ^ nat (- e) else m * 10 ^ nat e)
                   in to_double h (if neg then - v else v))))"

text \<open>\<open>x * 1000\<close>: the product of two doubles is the exact product, rounded.\<close>

fun times_1000 :: "host \<Rightarrow> js_number \<Rightarrow> js_number" where
  "times_1000 h (Finite q) = to_double h (q * 1000)"
| "times_1000 h PosInfinity = PosInfinity"
| "times_1000 h NegInfinity = NegInfinity"
| "times_1000 h NaN = NaN"

text \<open>
  \<open>new Date(x)\<close>: the time value is \<open>x\<close> cut to an integer towards zero; a value that is
  not finite or lies beyond 8.64e15 milliseconds gives an invalid date.
\<close>

fun new_Date :: "js_number \<Rightarrow> js_date" where
  "new_Date (Finite q) =
     (if \<bar>q\<bar> > 8640000000000000 then InvalidDate
      else Date (if q < 0 then \<lceil>q\<rceil> else \<lfloor>q\<rfloor>))"
| "new_Date PosInfinity = InvalidDate"
| "new_Date NegInfinity = InvalidDate"
| "new_Date NaN = InvalidDate"

section \<open>The outbound request\<close>

subsection \<open>Retry and delay options\<close>

datatype backoff =
    Immediate
  | ApproachExponential js_number
  | ApproachFixed js_number
  | ApproachImmediate

text \<open>
  \<open>retry\<close>: a bare count, or an object with a count and an optional backoff.
  \<open>Immediate\<close> is the string \<open>"immediate"\<close>, the three others are the objects with an
  \<open>approach\<close>; \<open>ApproachExponential\<close> carries the exponent, \<open>ApproachFixed\<close> the interval.
\<close>

datatype retry =
    RetryNumber js_number
  | RetryObject js_number "backoff option"

datatype delay =
    DelayNumber js_number
  | DelayDate js_date

fun backoff_string :: "host \<Rightarrow> backoff \<Rightarrow> string" where
  "backoff_string h Immediate = ''immediate''"
| "backoff_string h ApproachImmediate = ''immediate''"
| "backoff_string h (ApproachFixed interval) = ''fixed|'' @ number_to_string h interval"
| "backoff_string h (ApproachExponential exponent) =
     ''exponential|'' @ number_to_string h exponent"

text \<open>
  The entries that \<open>retry\<close> adds to the query: none when \<open>!retry\<close>, that is, when it is
  absent or a falsy number. An object is never falsy.
\<close>

fun retry_entries :: "host \<Rightarrow> retry option \<Rightarrow> (string \<times> string) list" where
  "retry_entries h None = []"
| "retry_entries h (Some (RetryNumber n)) =
     (if falsy_number n then [] else [(''_retry'', number_to_string h n)])"
| "retry_entries h (Some (RetryObject count None)) = [(''_retry'', number_to_string h count)]"
| "retry_entries h (Some (RetryObject count (Some b))) =
     [(''_retry'', number_to_string h count @ ''|'' @ backoff_string h b)]"

text \<open>
  The entries that \<open>delay\<close> adds: none when \<open>!delay\<close> (absent or a falsy number); a
  \<open>Date\<close> object is never falsy.
\<close>

fun delay_entries :: "host \<Rightarrow> delay option \<Rightarrow> (string \<times> string) list" where
  "delay_entries h None = []"
| "delay_entries h (Some (DelayNumber d)) =
     (if falsy_number d then [] else [(''_delay'', number_to_string h d)])"
| "delay_entries h (Some (DelayDate d)) =
     [(''_delay_until'', number_to_string h (date_valueOf d))]"

text \<open>The entries that \<open>trace\<close> adds: none when \<open>!trace\<close> (absent or the empty string).\<close>

fun trace_entries :: "string option \<Rightarrow> (string \<times> string) list" where
  "trace_entries None = []"
| "trace_entries (Some t) = (if t = [] then [] else [(''_trace'', t)])"

subsection \<open>\<open>URLSearchParams\<close>\<close>

definition hex_digit :: "nat \<Rightarrow> char" where
  "hex_digit n = ''0123456789ABCDEF'' ! n"

definition urlencoded_safe :: "char \<Rightarrow> bool" where
  "urlencoded_safe c =
     (c \<in> set ''ABCDEFGHIJKLMNOPQRSTUVWXYZabcdefghijklmnopqrstuvwxyz0123456789*-._'')"

text \<open>The form-urlencoded byte serializer: a space is a plus sign, a byte outside the safe set is percent-encoded.\<close>

definition urlencode_byte :: "char \<Rightarrow> string" where
  "urlencode_byte c =
     (if c = CHR '' '' then ''+''
      else if urlencoded_safe c then [c]
      else [CHR ''%'', hex_digit (of_char c div 16), hex_digit (of_char c mod 16)])"

definition urlencode :: "string \<Rightarrow> string" where
  "urlencode s = concat (map urlencode_byte s)"

text \<open>\<open>Array.prototype.join\<close> on strings.\<close>

fun join :: "string \<Rightarrow> string list \<Rightarrow> string" where
  "join sep [] = []"
| "join sep [x] = x"
| "join sep (x # y # ys) = x @ sep @ join sep (y # ys)"

text \<open>\<open>`${new URLSearchParams(entries)}`\<close>.\<close>

definition URLSearchParams_toString :: "(string \<times> string) list \<Rightarrow> string" where
  "URLSearchParams_toString entries =
     join ''&'' (map (\<lambda>(k, v). urlencode k @ ''='' @ urlencode v) entries)"

text \<open>\<open>xs.filter(Boolean)\<close> on an array of optional strings: \<open>undefined\<close> and the empty string go.\<close>

fun filter_Boolean :: "string option list \<Rightarrow> string list" where
  "filter_Boolean [] = []"
| "filter_Boolean (None # xs) = filter_Boolean xs"
| "filter_Boolean (Some s # xs) = (if s = [] then filter_Boolean xs else s # filter_Boolean xs)"

subsection \<open>Schema checks of the client\<close>

text \<open>The type name the schema library reports for a value.\<close>

fun zod_type :: "js_value \<Rightarrow> string" where
  "zod_type JUndefined = ''undefined''"
| "zod_type JNull = ''null''"
| "zod_type (JBool b) = ''boolean''"
| "zod_type (JNumber n) = ''number''"
| "zod_type (JString s) = ''string''"
| "zod_type (JArray xs) = ''array''"
| "zod_type (JObject obj) = ''object''"

text \<open>\<open>z.string()\<close> applied to the value found at \<open>path\<close>.\<close>

fun z_string :: "string list \<Rightarrow> js_value \<Rightarrow> zod_issue list + string" where
  "z_string path (JString s) = Inr s"
| "z_string path v = Inl [InvalidType ''string'' (zod_type v) path]"

text \<open>
  \<open>z.object({"x-zeplo-id": z.string(), "x-zeplo-start": z.string()})\<close> on a header object:
  both keys are checked and the issues of both are reported; other keys are dropped.
\<close>

definition z_zeplo_headers :: "(string \<times> js_value) list \<Rightarrow> zod_issue list + (string \<times> string)" where
  "z_zeplo_headers hs =
     (case z_string [''x-zeplo-id''] (get_prop hs ''x-zeplo-id'') of
        Inl a \<Rightarrow>
          (case z_string [''x-zeplo-start''] (get_prop hs ''x-zeplo-start'') of
             Inl b \<Rightarrow> Inl (a @ b)
           | Inr start \<Rightarrow> Inl a)
      | Inr jobId \<Rightarrow>
          (case z_string [''x-zeplo-start''] (get_prop hs ''x-zeplo-start'') of
             Inl b \<Rightarrow> Inl b
           | Inr start \<Rightarrow> Inr (jobId, start)))"

text \<open>\<open>z.object({ id: z.string() })\<close> on any value.\<close>

fun z_id :: "js_value \<Rightarrow> zod_issue list + js_value" where
  "z_id (JObject obj) =
     (case z_string [''id''] (get_prop obj ''id'') of
        Inl a \<Rightarrow> Inl a
      | Inr i \<Rightarrow> Inr (JObject [(''id'', JString i)]))"
| "z_id v = Inl [InvalidType ''object'' (zod_type v) []]"

text \<open>The elements of an array checked by \<open>z.string()\<close>, from index \<open>i\<close> on.\<close>

fun z_strings_from :: "nat \<Rightarrow> js_value list \<Rightarrow> zod_issue list + string list" where
  "z_strings_from i [] = Inr []"
| "z_strings_from i (v # vs) =
     (case z_string [show_nat i] v of
        Inl a \<Rightarrow> (case z_strings_from (Suc i) vs of Inl b \<Rightarrow> Inl (a @ b) | Inr ss \<Rightarrow> Inl a)
      | Inr s \<Rightarrow> (case z_strings_from (Suc i) vs of Inl b \<Rightarrow> Inl b | Inr ss \<Rightarrow> Inr (s # ss)))"

text \<open>\<open>z.array(z.string())\<close> on any value.\<close>

fun z_array_string :: "js_value \<Rightarrow> zod_issue list + string list" where
  "z_array_string (JArray vs) = z_strings_from 0 vs"
| "z_array_string v = Inl [InvalidType ''array'' (zod_type v) []]"

section \<open>The client\<close>

datatype mode = DevServer | Direct | Production

record meta =
  jobId :: string
  start :: js_date

text \<open>The environment variables the client reads.\<close>

record process_env =
  ZEPLO_BASE_URL :: "string option"
  ZEPLO_ENCRYPTION_SECRET :: "string option"
  NODE_ENV :: "string option"
  ZEPLO_TOKEN :: "string option"
  ZEPLO_OLD_SECRETS :: "string option"
  ZEPLO_API_URL :: "string option"

text \<open>The \<open>options\<close> argument; a field that is not given is \<open>None\<close>.\<close>

record options =
  opt_apiUrl :: "string option"
  opt_baseUrl :: "string option"
  opt_delay :: "delay option"
  opt_encryptionSecret :: "string option"
  opt_env :: "string option"
  opt_mode :: "mode option"
  opt_oldSecrets :: "string list option"
  opt_retry :: "retry option"
  opt_schema :: "(js_value \<Rightarrow> js_error + js_value) option"
  opt_serializer :: "serializer option"
  opt_token :: "string option"

text \<open>The variables that \<open>enqueue\<close> and \<open>respondTo\<close> close over.\<close>

record client =
  handler :: "js_value \<Rightarrow> meta \<Rightarrow> js_error + unit"
  route :: string
  apiUrl :: string
  baseUrl :: "string option"
  defaultDelay :: "delay option"
  encryptionSecret :: "string option"
  env :: "string option"
  mode :: mode
  defaultRetry :: "retry option"
  schema :: "js_value \<Rightarrow> js_error + js_value"
  serializer :: serializer
  zeploToken :: "string option"
  oldSecrets :: "string list option"
  encryptor :: encryptor

text \<open>A destructuring default: the default is taken when the value is \<open>undefined\<close>.\<close>

fun or_default :: "'a option \<Rightarrow> 'a option \<Rightarrow> 'a option" where
  "or_default (Some x) d = Some x"
| "or_default None d = d"

fun mode_apiUrl :: "mode \<Rightarrow> string" where
  "mode_apiUrl Direct = []"
| "mode_apiUrl DevServer = ''http://localhost:4747''"
| "mode_apiUrl Production = ''https://zeplo.to''"

text \<open>The default of \<open>oldSecrets\<close>, read from the environment.\<close>

definition env_oldSecrets :: "host \<Rightarrow> process_env \<Rightarrow> js_error + string list option" where
  "env_oldSecrets h pe =
     (case ZEPLO_OLD_SECRETS pe of
        None \<Rightarrow> Inr None
      | Some s \<Rightarrow>
          if s = [] then Inr None
          else
            (case parse (JSON h) s of
               Inl e \<Rightarrow> Inl e
             | Inr v \<Rightarrow>
                 (case z_array_string v of
                    Inl issues \<Rightarrow> Inl (ZodError issues)
                  | Inr ss \<Rightarrow> Inr (Some ss))))"

text \<open>Without a secret the encryptor hands its input back.\<close>

definition passthrough :: encryptor where
  "passthrough = \<lparr>decrypt = (\<lambda>input. Inr input), encrypt = (\<lambda>input. Inr input)\<rparr>"

definition ZeploClient ::
  "host \<Rightarrow> process_env \<Rightarrow> (js_value \<Rightarrow> meta \<Rightarrow> js_error + unit) \<Rightarrow> string \<Rightarrow> options
     \<Rightarrow> js_error + client" where
  "ZeploClient h pe hdl rt opts =
     (let secret = or_default (opt_encryptionSecret opts) (ZEPLO_ENCRYPTION_SECRET pe);
          md = (case opt_mode opts of None \<Rightarrow> Production | Some m \<Rightarrow> m)
      in case (case opt_oldSecrets opts of
                 Some ss \<Rightarrow> Inr (Some ss)
               | None \<Rightarrow> env_oldSecrets h pe) of
           Inl e \<Rightarrow> Inl e
         | Inr olds \<Rightarrow>
             (case (case secret of
                      None \<Rightarrow> Inr passthrough
                    | Some k \<Rightarrow> if k = [] then Inr passthrough else new_Encryptor h k olds) of
                Inl e \<Rightarrow> Inl e
              | Inr enc \<Rightarrow>
                  Inr \<lparr>handler = hdl,
                       route = rt,
                       apiUrl =
                         (case opt_apiUrl opts of
                            Some u \<Rightarrow> u
                          | None \<Rightarrow>
                              (case ZEPLO_API_URL pe of
                                 Some u \<Rightarrow> u
                               | None \<Rightarrow> mode_apiUrl md)),
                       baseUrl = or_default (opt_baseUrl opts) (ZEPLO_BASE_URL pe),
                       defaultDelay = opt_delay opts,
                       encryptionSecret = secret,
                       env = or_default (opt_env opts) (NODE_ENV pe),
                       mode = md,
                       defaultRetry = opt_retry opts,
                       schema = (case opt_schema opts of None \<Rightarrow> (\<lambda>data. Inr data) | Some sc \<Rightarrow> sc),
                       serializer = (case opt_serializer opts of None \<Rightarrow> JSON h | Some sr \<Rightarrow> sr),
                       zeploToken = or_default (opt_token opts) (ZEPLO_TOKEN pe),
                       oldSecrets = olds,
                       encryptor = enc\<rparr>))"

section \<open>\<open>enqueue\<close>\<close>

text \<open>The second argument of \<open>enqueue\<close>; a field that is not given is \<open>None\<close>.\<close>

record enqueue_options =
  trace :: "string option"
  delay :: "delay option"
  retry :: "retry option"

text \<open>The init object handed to \<open>fetch\<close>, together with the URL.\<close>

record request =
  req_url :: string
  req_cache :: string
  req_method :: string
  req_credentials :: string
  req_body :: string
  req_headers :: "(string \<times> string) list"

text \<open>What \<open>enqueue\<close> reads of the response: its status, \<open>await res.text()\<close> and \<open>await res.json()\<close>.\<close>

record response =
  res_status :: int
  res_text :: "js_error + string"
  res_json :: "js_error + js_value"

text \<open>\<open>`${[apiUrl, baseUrl].filter(Boolean).join("/")}/${route}`\<close>.\<close>

definition target_url :: "client \<Rightarrow> string" where
  "target_url c = join ''/'' (filter_Boolean [Some (apiUrl c), baseUrl c]) @ ''/'' @ route c"

text \<open>The object given to \<open>URLSearchParams\<close>; an \<open>env\<close> that is \<open>undefined\<close> is sent as that word.\<close>

definition search_entries :: "host \<Rightarrow> client \<Rightarrow> enqueue_options \<Rightarrow> (string \<times> string) list" where
  "search_entries h c opts =
     [(''_env'', case env c of None \<Rightarrow> ''undefined'' | Some e \<Rightarrow> e)]
     @ trace_entries (trace opts)
     @ delay_entries h (or_default (delay opts) (defaultDelay c))
     @ retry_entries h (or_default (retry opts) (defaultRetry c))"

text \<open>\<open>`${Date.now() / 1000}`\<close> for a clock reading in milliseconds.\<close>

definition seconds_string :: "host \<Rightarrow> nat \<Rightarrow> string" where
  "seconds_string h now = number_to_string h (to_double h (of_nat now / 1000))"

text \<open>The headers of the request; \<open>v4\<close> is the identifier drawn, \<open>now\<close> the clock reading.\<close>

definition request_headers :: "host \<Rightarrow> client \<Rightarrow> string \<Rightarrow> nat \<Rightarrow> (string \<times> string) list" where
  "request_headers h c v4 now =
     (if mode c \<noteq> Direct then
        (case zeploToken c of
           None \<Rightarrow> []
         | Some t \<Rightarrow> if t = [] then [] else [(''X-Zeplo-Token'', t)])
      else [(''X-Zeplo-Id'', v4 @ ''-iow''), (''X-Zeplo-Start'', seconds_string h now)])"

definition build_request ::
  "host \<Rightarrow> client \<Rightarrow> string \<Rightarrow> nat \<Rightarrow> enqueue_options \<Rightarrow> string \<Rightarrow> request" where
  "build_request h c v4 now opts encrypted =
     \<lparr>req_url = target_url c @ ''?'' @ URLSearchParams_toString (search_entries h c opts),
      req_cache = ''no-store'',
      req_method = ''POST'',
      req_credentials = ''omit'',
      req_body = encrypted,
      req_headers = request_headers h c v4 now\<rparr>"

definition unexpected_response :: "string \<Rightarrow> string \<Rightarrow> string \<Rightarrow> string" where
  \<open>unexpected_response stringifiedPayload url txt =
     ''Unexpected response while trying to enqueue "'' @ stringifiedPayload @ ''" to '' @ url
     @ '': '' @ txt\<close>

text \<open>
  \<open>enqueue\<close> returns what the promise settles with (\<open>Inl\<close> a rejection) and the requests it
  handed to \<open>fetch\<close>, in order.
\<close>

definition enqueue ::
  "host \<Rightarrow> client \<Rightarrow> (request \<Rightarrow> js_error + response) \<Rightarrow> string \<Rightarrow> nat \<Rightarrow> js_value \<Rightarrow> enqueue_options
     \<Rightarrow> (js_error + js_value) \<times> request list" where
  "enqueue h c fetch v4 now payload opts =
     (case stringify (serializer c) payload of
        Inl e \<Rightarrow> (Inl e, [])
      | Inr stringifiedPayload \<Rightarrow>
          (case encrypt (encryptor c) stringifiedPayload of
             Inl e \<Rightarrow> (Inl e, [])
           | Inr encrypted \<Rightarrow>
               (let req = build_request h c v4 now opts encrypted
                in case fetch req of
                     Inl e \<Rightarrow> (Inl e, [req])
                   | Inr res \<Rightarrow>
                       if res_status res \<ge> 400 then
                         (case res_text res of
                            Inl e \<Rightarrow> (Inl e, [req])
                          | Inr txt \<Rightarrow>
                              (Inl (Error ''Error''
                                      (unexpected_response stringifiedPayload (target_url c) txt)),
                               [req]))
                       else
                         (case res_json res of
                            Inl e \<Rightarrow> (Inl e, [req])
                          | Inr v \<Rightarrow>
                              (case z_id v of
                                 Inl issues \<Rightarrow> (Inl (ZodError issues), [req])
                               | Inr r \<Rightarrow> (Inr r, [req]))))))"

section \<open>\<open>respondTo\<close>\<close>

text \<open>The object \<open>respondTo\<close> returns.\<close>

record reply =
  status :: int
  body :: js_value

text \<open>
  A run of \<open>respondTo\<close>: what the promise settles with (\<open>Inl\<close> a rejection), what was
  written with \<open>console.error\<close> and the calls of the handler.
\<close>

record respondTo_run =
  returned :: "js_error + reply"
  console_error :: "js_error list"
  handler_calls :: "(js_value \<times> meta) list"

text \<open>
  The steps of the \<open>try\<close> block before the handler is called: the headers, the body, its
  decryption, its parsing and the schema.
\<close>

definition decode :: "host \<Rightarrow> client \<Rightarrow> js_value \<Rightarrow> (string \<times> js_value) list \<Rightarrow> js_error + (js_value \<times> meta)" where
  "decode h c b hs =
     (case z_zeplo_headers hs of
        Inl issues \<Rightarrow> Inl (ZodError issues)
      | Inr (jid, st) \<Rightarrow>
          (case z_string [] b of
             Inl issues \<Rightarrow> Inl (ZodError issues)
           | Inr s \<Rightarrow>
               (case decrypt (encryptor c) s of
                  Inl e \<Rightarrow> Inl e
                | Inr plain \<Rightarrow>
                    (case parse (serializer c) plain of
                       Inl e \<Rightarrow> Inl e
                     | Inr v \<Rightarrow>
                         (case schema c v of
                            Inl e \<Rightarrow> Inl e
                          | Inr p \<Rightarrow>
                              Inr (p, \<lparr>jobId = jid,
                                       start = new_Date (times_1000 h (parseFloat h st))\<rparr>))))))"

text \<open>The \<open>try\<close> block: its result (\<open>Inl\<close> what it throws) and the calls of the handler.\<close>

definition respondTo_try ::
  "host \<Rightarrow> client \<Rightarrow> js_value \<Rightarrow> (string \<times> js_value) list \<Rightarrow> (js_error + reply) \<times> (js_value \<times> meta) list" where
  "respondTo_try h c b hs =
     (case decode h c b hs of
        Inl e \<Rightarrow> (Inl e, [])
      | Inr (p, m) \<Rightarrow>
          (case handler c p m of
             Inl e \<Rightarrow> (Inl e, [(p, m)])
           | Inr u \<Rightarrow> (Inr \<lparr>status = 200, body = JObject [(''id'', JString (jobId m))]\<rparr>, [(p, m)])))"

text \<open>
  The \<open>catch\<close> clause writes the error with \<open>console.error\<close> and then builds the 500
  reply from \<open>`${error}`\<close>; when that conversion throws, the promise rejects with what it
  throws.
\<close>

definition respondTo :: "host \<Rightarrow> client \<Rightarrow> js_value \<Rightarrow> (string \<times> js_value) list \<Rightarrow> respondTo_run" where
  "respondTo h c b hs =
     (case respondTo_try h c b hs of
        (Inr r, calls) \<Rightarrow> \<lparr>returned = Inr r, console_error = [], handler_calls = calls\<rparr>
      | (Inl error, calls) \<Rightarrow>
          \<lparr>returned =
             (case template_literal (zod_text h) error of
                Inl thrown \<Rightarrow> Inl thrown
              | Inr s \<Rightarrow> Inr \<lparr>status = 500, body = JString s\<rparr>),
           console_error = [error],
           handler_calls = calls\<rparr>)"

section \<open>The specification's formulas and the fixtures of the tests\<close>

text \<open>
  The target URL in the specification's words: the non-empty members of
  \<open>[apiUrl, baseUrl, route]\<close>, in that order, joined with a slash. A \<open>baseUrl\<close> that is not
  set counts as empty.
\<close>

definition spec_target_url :: "string \<Rightarrow> string option \<Rightarrow> string \<Rightarrow> string" where
  "spec_target_url api base rt =
     join ''/'' (filter (\<lambda>s. s \<noteq> []) [api, (case base of None \<Rightarrow> [] | Some b \<Rightarrow> b), rt])"

text \<open>
  The components of a query string: the texts between its ampersands
  (\<open>String.prototype.split\<close>).
\<close>

fun split_on :: "char \<Rightarrow> string \<Rightarrow> string list" where
  "split_on sep [] = [[]]"
| "split_on sep (c # cs) =
     (if c = sep then [] # split_on sep cs
      else (case split_on sep cs of x # xs \<Rightarrow> (c # x) # xs | [] \<Rightarrow> [[c]]))"

text \<open>
  The fixtures follow the repository's tests: a serializer that stands for \<open>JSON\<close> on the one
  payload the tests send, a handler that resolves, a service that answers 200 with
  \<open>{"id": "foo"}\<close> and the text \<open>res.text\<close>, and \<open>NODE_ENV=test\<close>. The stand-in for the
  encryption library reverses the text; the stand-ins for the arithmetic of doubles are
  never asked, since the numbers of the fixtures are integers.
\<close>

definition test_payload :: js_value where
  "test_payload = JObject [(''foo'', JString ''bar'')]"

text \<open>Its JSON text.\<close>

definition test_body :: string where
  \<open>test_body = ''{"foo":"bar"}''\<close>

definition test_JSON :: serializer where
  \<open>test_JSON =
     \<lparr>parse = (\<lambda>s. if s = test_body then Inr test_payload
                    else Inl (Error ''SyntaxError'' ''Unexpected token'')),
      stringify = (\<lambda>v. if v = test_payload then Inr test_body
                        else Inl (Error ''TypeError'' ''not the payload of the tests''))\<rparr>\<close>

definition test_Encryptor :: encryptor where
  "test_Encryptor = \<lparr>decrypt = (\<lambda>input. Inr (rev input)), encrypt = (\<lambda>input. Inr (rev input))\<rparr>"

definition test_host :: host where
  "test_host =
     \<lparr>JSON = test_JSON,
      new_Encryptor = (\<lambda>k olds. Inr test_Encryptor),
      zod_text = (\<lambda>issues. ''invalid input''),
      round_double = (\<lambda>q. Finite q),
      Number_toString = (\<lambda>q. ''not in the tests'')\<rparr>"

definition test_env :: process_env where
  "test_env =
     \<lparr>ZEPLO_BASE_URL = None, ZEPLO_ENCRYPTION_SECRET = None, NODE_ENV = Some ''test'',
      ZEPLO_TOKEN = None, ZEPLO_OLD_SECRETS = None, ZEPLO_API_URL = None\<rparr>"

definition no_options :: options where
  "no_options =
     \<lparr>opt_apiUrl = None, opt_baseUrl = None, opt_delay = None, opt_encryptionSecret = None,
      opt_env = None, opt_mode = None, opt_oldSecrets = None, opt_retry = None,
      opt_schema = None, opt_serializer = None, opt_token = None\<rparr>"

definition no_enqueue_options :: enqueue_options where
  "no_enqueue_options = \<lparr>trace = None, delay = None, retry = None\<rparr>"

definition test_handler :: "js_value \<Rightarrow> meta \<Rightarrow> js_error + unit" where
  "test_handler p m = Inr ()"

definition test_response :: response where
  "test_response =
     \<lparr>res_status = 200, res_text = Inr ''res.text'',
      res_json = Inr (JObject [(''id'', JString ''foo'')])\<rparr>"

definition test_fetch :: "request \<Rightarrow> js_error + response" where
  "test_fetch req = Inr test_response"

text \<open>The client of \<open>Queue("route", handler, options)\<close> in the tests' environment.\<close>

definition test_client :: "options \<Rightarrow> js_error + client" where
  "test_client opts = ZeploClient test_host test_env test_handler ''route'' opts"

text \<open>\<open>!s\<close> for an optional string: it is not set or it is empty.\<close>

fun falsy :: "string option \<Rightarrow> bool" where
  "falsy None = True"
| "falsy (Some s) = (s = [])"

text \<open>The client that \<open>Queue("route", handler)\<close> builds in the tests' environment.\<close>

definition default_client :: client where
  "default_client =
     \<lparr>handler = test_handler, route = ''route'', apiUrl = ''https://zeplo.to'', baseUrl = None,
      defaultDelay = None, encryptionSecret = None, env = Some ''test'', mode = Production,
      defaultRetry = None, schema = (\<lambda>data. Inr data), serializer = test_JSON,
      zeploToken = None, oldSecrets = None, encryptor = passthrough\<rparr>"

text \<open>The headers of the delivery in the tests.\<close>

definition test_headers :: "(string \<times> js_value) list" where
  "test_headers =
     [(''x-zeplo-id'', JString ''foo''), (''x-zeplo-start'', JString ''1970-01-01T00:32:50.000Z'')]"

text \<open>The request the tests expect \<open>fetch\<close> to be called with.\<close>

definition test_request :: request where
  \<open>test_request =
     \<lparr>req_url = ''https://zeplo.to/route?_env=test'', req_cache = ''no-store'',
      req_method = ''POST'', req_credentials = ''omit'', req_body = test_body,
      req_headers = []\<rparr>\<close>

text \<open>The client of \<open>Queue("route", handler, { mode: "direct" })\<close> in the tests' environment.\<close>

definition direct_client :: client where
  "direct_client = default_client\<lparr>apiUrl := [], mode := Direct\<rparr>"

section \<open>Evaluation and helper lemmas\<close>

lemmas fixture_defs = test_client_def test_host_def test_env_def no_options_def
  no_enqueue_options_def test_fetch_def test_response_def test_JSON_def test_payload_def
  test_handler_def passthrough_def test_Encryptor_def default_client_def test_headers_def
  test_request_def direct_client_def test_body_def

lemmas text_defs = URLSearchParams_toString_def urlencode_def urlencode_byte_def
  urlencoded_safe_def hex_digit_def number_to_string.simps(1) show_int_def safe_integer_def
  to_double_def show_nat.simps digit_char_def
  seconds_string_def unexpected_response_def

lemmas enqueue_defs = enqueue_def build_request_def target_url_def search_entries_def
  request_headers_def get_prop_def Let_def

lemma default_client_built: "test_client no_options = Inr default_client"
  by (simp add: fixture_defs ZeploClient_def env_oldSecrets_def)

lemma direct_client_built:
  "test_client (no_options\<lparr>opt_mode := Some Direct\<rparr>) = Inr direct_client"
  by (simp add: fixture_defs ZeploClient_def env_oldSecrets_def)

lemma default_enqueue:
  "enqueue test_host default_client test_fetch v4 now test_payload no_enqueue_options
     = (Inr (JObject [(''id'', JString ''foo'')]), [test_request])"
  by (simp add: fixture_defs enqueue_defs text_defs)

lemma default_stringify: "stringify (serializer default_client) test_payload = Inr test_body"
  by (simp add: default_client_def test_JSON_def)

lemma default_encrypt: "encrypt (encryptor default_client) s = Inr s"
  by (simp add: default_client_def passthrough_def)

lemma enqueue_test_fetch:
  assumes "stringify (serializer c) payload = Inr s" and "encrypt (encryptor c) s = Inr e"
  shows "enqueue h c test_fetch v4 now payload opts
           = (Inr (JObject [(''id'', JString ''foo'')]), [build_request h c v4 now opts e])"
  using assms by (simp add: enqueue_def test_fetch_def test_response_def get_prop_def Let_def)

text \<open>Every request that \<open>enqueue\<close> hands to \<open>fetch\<close> is the one built from the encrypted payload.\<close>

lemma enqueue_requests:
  "req \<in> set (snd (enqueue h c fetch v4 now payload opts)) \<Longrightarrow>
     \<exists>s e. stringify (serializer c) payload = Inr s \<and> encrypt (encryptor c) s = Inr e
        \<and> req = build_request h c v4 now opts e"
  by (auto simp: enqueue_def Let_def split: sum.splits if_splits)

lemma safe_integer_of_int: "\<bar>k\<bar> \<le> 9007199254740992 \<Longrightarrow> safe_integer (of_int k)"
proof -
  assume "\<bar>k\<bar> \<le> 9007199254740992"
  then have "rat_of_int \<bar>k\<bar> \<le> rat_of_int 9007199254740992"
    by (simp only: of_int_le_iff)
  then show ?thesis
    by (simp add: safe_integer_def)
qed

lemma number_to_string_of_int:
  "\<bar>k\<bar> \<le> 9007199254740992 \<Longrightarrow> number_to_string h (Finite (of_int k)) = show_int k"
  by (simp add: number_to_string.simps(1) safe_integer_of_int)

lemma filter_Boolean_pair:
  "filter_Boolean [Some a, b] = filter (\<lambda>s. s \<noteq> []) [a, (case b of None \<Rightarrow> [] | Some t \<Rightarrow> t)]"
  by (cases b) auto

lemma join_snoc: "xs \<noteq> [] \<Longrightarrow> join sep (xs @ [x]) = join sep xs @ sep @ x"
  by (induction sep xs rule: join.induct) auto

section \<open>The target URL\<close>

text \<open>
  In direct mode with no \<open>baseUrl\<close> the prefix is empty, and the URL is the route after a
  slash, not the bare route that joining the non-empty members gives.
\<close>

theorem target_url_counterexample:
  "test_client (no_options\<lparr>opt_mode := Some Direct\<rparr>) = Inr direct_client
   \<and> apiUrl direct_client = [] \<and> baseUrl direct_client = None \<and> route direct_client = ''route''
   \<and> target_url direct_client = ''/route''
   \<and> spec_target_url [] None ''route'' = ''route''
   \<and> map req_url (snd (enqueue test_host direct_client test_fetch ''foo'' 0 test_payload no_enqueue_options))
       = [''/route?_env=test'']"
  by (simp add: fixture_defs ZeploClient_def env_oldSecrets_def enqueue_defs text_defs
      spec_target_url_def)

text \<open>
  C3 (as amended): for every request that \<open>enqueue\<close> issues, the URL before the query string
  is the non-empty members of \<open>[apiUrl, baseUrl]\<close> joined with a slash, then a slash, then
  the route. When the route is non-empty and \<open>apiUrl\<close> or \<open>baseUrl\<close> is non-empty, this is
  the non-empty members of \<open>[apiUrl, baseUrl, route]\<close> joined with a slash; when \<open>apiUrl\<close>
  and \<open>baseUrl\<close> are both empty, it is a slash followed by the route.
\<close>

theorem target_url_joined:
  assumes "req \<in> set (snd (enqueue h c fetch v4 now payload opts))"
  shows "req_url req =
           join ''/'' (filter_Boolean [Some (apiUrl c), baseUrl c]) @ ''/'' @ route c @ ''?''
             @ URLSearchParams_toString (search_entries h c opts)
         \<and> (route c \<noteq> [] \<and> (apiUrl c \<noteq> [] \<or> \<not> falsy (baseUrl c)) \<longrightarrow>
              target_url c = spec_target_url (apiUrl c) (baseUrl c) (route c))
         \<and> (apiUrl c = [] \<and> falsy (baseUrl c) \<longrightarrow> target_url c = ''/'' @ route c)"
proof -
  from enqueue_requests [OF assms] obtain e where "req = build_request h c v4 now opts e"
    by blast
  then have url:
    "req_url req = target_url c @ ''?'' @ URLSearchParams_toString (search_entries h c opts)"
    by (simp add: build_request_def)
  have agree: "target_url c = spec_target_url (apiUrl c) (baseUrl c) (route c)"
    if "route c \<noteq> []" and "apiUrl c \<noteq> [] \<or> \<not> falsy (baseUrl c)"
  proof -
    let ?pre = "filter (\<lambda>s. s \<noteq> []) [apiUrl c, (case baseUrl c of None \<Rightarrow> [] | Some t \<Rightarrow> t)]"
    have ne: "?pre \<noteq> []"
      using that(2) by (cases "baseUrl c") auto
    have "spec_target_url (apiUrl c) (baseUrl c) (route c) = join ''/'' (?pre @ [route c])"
      using that(1) by (simp add: spec_target_url_def)
    also have "\<dots> = join ''/'' ?pre @ ''/'' @ route c"
      using ne by (rule join_snoc)
    finally show ?thesis
      by (simp only: target_url_def filter_Boolean_pair)
  qed
  have empty: "target_url c = ''/'' @ route c" if "apiUrl c = [] \<and> falsy (baseUrl c)"
    using that by (cases "baseUrl c") (auto simp: target_url_def)
  show ?thesis
    using url agree empty by (simp add: target_url_def)
qed

theorem target_url_joined_witness:
  "test_request \<in> set (snd (enqueue test_host default_client test_fetch ''foo'' 0 test_payload no_enqueue_options))
   \<and> req_url test_request = ''https://zeplo.to/route?_env=test''
   \<and> route default_client \<noteq> [] \<and> apiUrl default_client \<noteq> []
   \<and> target_url default_client = spec_target_url ''https://zeplo.to'' None ''route''
   \<and> spec_target_url ''https://zeplo.to'' None ''route'' = ''https://zeplo.to/route''"
proof -
  have mem: "test_request
      \<in> set (snd (enqueue test_host default_client test_fetch ''foo'' 0 test_payload no_enqueue_options))"
    by (simp add: default_enqueue)
  have fields: "route default_client = ''route''" "apiUrl default_client = ''https://zeplo.to''"
    "baseUrl default_client = None"
    by (simp_all add: default_client_def)
  have spec: "spec_target_url ''https://zeplo.to'' None ''route'' = ''https://zeplo.to/route''"
    by (simp add: spec_target_url_def)
  have url: "req_url test_request = ''https://zeplo.to/route?_env=test''"
    by (simp add: test_request_def)
  from target_url_joined [OF mem]
  have "target_url default_client = spec_target_url ''https://zeplo.to'' None ''route''"
    by (simp add: fields)
  with mem fields spec url show ?thesis
    by simp
qed

section \<open>The retry specification\<close>

text \<open>
  A bare count that is 0 or \<open>NaN\<close> is falsy: no \<open>_retry\<close> is sent for it, not the text
  \<open>0\<close>.
\<close>

theorem retry_serialized_counterexample:
  "retry_entries test_host (Some (RetryNumber (Finite 0))) = []
   \<and> retry_entries test_host (Some (RetryNumber NaN)) = []
   \<and> map req_url (snd (enqueue test_host default_client test_fetch ''foo'' 0 test_payload
         (no_enqueue_options\<lparr>retry := Some (RetryNumber (Finite 0))\<rparr>)))
       = [''https://zeplo.to/route?_env=test'']"
  by (simp add: fixture_defs enqueue_defs text_defs)

text \<open>
  C4 (as amended): the value of \<open>_retry\<close> is pipe-delimited. A bare count \<open>n\<close> other than 0
  and \<open>NaN\<close> gives the text of \<open>n\<close>; an object with the count \<open>n\<close> and no backoff gives
  the text of \<open>n\<close>; with the backoff \<open>"immediate"\<close> (the string or the approach) it gives
  \<open>n|immediate\<close>; with the fixed approach and the interval \<open>i\<close> it gives \<open>n|fixed|i\<close>;
  with the exponential approach and the exponent \<open>e\<close> it gives \<open>n|exponential|e\<close>. The
  text of a number is \<open>`${n}`\<close>: for an integer of magnitude up to \<open>2^53\<close> its decimal
  numeral.
\<close>

theorem retry_serialized:
  "(\<not> falsy_number n \<longrightarrow>
      retry_entries h (Some (RetryNumber n)) = [(''_retry'', number_to_string h n)])
   \<and> retry_entries h (Some (RetryObject n None)) = [(''_retry'', number_to_string h n)]
   \<and> retry_entries h (Some (RetryObject n (Some Immediate)))
       = [(''_retry'', number_to_string h n @ ''|immediate'')]
   \<and> retry_entries h (Some (RetryObject n (Some ApproachImmediate)))
       = [(''_retry'', number_to_string h n @ ''|immediate'')]
   \<and> retry_entries h (Some (RetryObject n (Some (ApproachFixed i))))
       = [(''_retry'', number_to_string h n @ ''|fixed|'' @ number_to_string h i)]
   \<and> retry_entries h (Some (RetryObject n (Some (ApproachExponential e))))
       = [(''_retry'', number_to_string h n @ ''|exponential|'' @ number_to_string h e)]
   \<and> (\<bar>k\<bar> \<le> 9007199254740992 \<longrightarrow> number_to_string h (Finite (of_int k)) = show_int k)"
  by (simp add: number_to_string_of_int)

theorem retry_serialized_witness:
  "\<not> falsy_number (Finite 3)
   \<and> retry_entries test_host (Some (RetryNumber (Finite 3))) = [(''_retry'', ''3'')]
   \<and> retry_entries test_host (Some (RetryObject (Finite 3) None)) = [(''_retry'', ''3'')]
   \<and> retry_entries test_host (Some (RetryObject (Finite 3) (Some Immediate)))
       = [(''_retry'', ''3|immediate'')]
   \<and> retry_entries test_host (Some (RetryObject (Finite 3) (Some ApproachImmediate)))
       = [(''_retry'', ''3|immediate'')]
   \<and> retry_entries test_host (Some (RetryObject (Finite 3) (Some (ApproachFixed (Finite 4)))))
       = [(''_retry'', ''3|fixed|4'')]
   \<and> retry_entries test_host (Some (RetryObject (Finite 3) (Some (ApproachExponential (Finite 4)))))
       = [(''_retry'', ''3|exponential|4'')]
   \<and> \<bar>3 :: int\<bar> \<le> 9007199254740992
   \<and> number_to_string test_host (Finite (of_int 3)) = ''3''"
proof -
  have three: "number_to_string test_host (Finite 3) = ''3''"
    and four: "number_to_string test_host (Finite 4) = ''4''"
    by (simp_all add: text_defs)
  show ?thesis
    using retry_serialized [of "Finite 3" test_host "Finite 4" "Finite 4" 3]
    by (simp add: three four)
qed

section \<open>The effective \<open>apiUrl\<close>\<close>

text \<open>
  C9: an \<open>apiUrl\<close> option is the effective \<open>apiUrl\<close>; without it the variable
  \<open>ZEPLO_API_URL\<close> is; without both the mode decides: nothing for direct,
  \<open>http://localhost:4747\<close> for the dev server, \<open>https://zeplo.to\<close> for production, which
  is also the mode when none is given.
\<close>

theorem apiUrl_resolution:
  assumes "ZeploClient h pe hdl rt opts = Inr c"
  shows "(\<forall>u. opt_apiUrl opts = Some u \<longrightarrow> apiUrl c = u)
         \<and> (\<forall>u. opt_apiUrl opts = None \<and> ZEPLO_API_URL pe = Some u \<longrightarrow> apiUrl c = u)
         \<and> (opt_apiUrl opts = None \<and> ZEPLO_API_URL pe = None \<longrightarrow>
              (opt_mode opts = Some Direct \<longrightarrow> apiUrl c = [])
              \<and> (opt_mode opts = Some DevServer \<longrightarrow> apiUrl c = ''http://localhost:4747'')
              \<and> (opt_mode opts = Some Production \<longrightarrow> apiUrl c = ''https://zeplo.to'')
              \<and> (opt_mode opts = None \<longrightarrow> apiUrl c = ''https://zeplo.to''))"
  using assms by (auto simp: ZeploClient_def Let_def split: sum.splits option.splits if_splits)

theorem apiUrl_resolution_witness:
  "ZeploClient test_host (test_env\<lparr>ZEPLO_API_URL := Some ''https://bar.com''\<rparr>) test_handler ''route''
       (no_options\<lparr>opt_apiUrl := Some ''https://foo.com'', opt_mode := Some DevServer\<rparr>)
     = Inr (default_client\<lparr>apiUrl := ''https://foo.com'', mode := DevServer\<rparr>)
   \<and> apiUrl (default_client\<lparr>apiUrl := ''https://foo.com'', mode := DevServer\<rparr>) = ''https://foo.com''
   \<and> ZeploClient test_host (test_env\<lparr>ZEPLO_API_URL := Some ''https://bar.com''\<rparr>) test_handler ''route''
       (no_options\<lparr>opt_mode := Some DevServer\<rparr>)
     = Inr (default_client\<lparr>apiUrl := ''https://bar.com'', mode := DevServer\<rparr>)
   \<and> apiUrl (default_client\<lparr>apiUrl := ''https://bar.com'', mode := DevServer\<rparr>) = ''https://bar.com''
   \<and> test_client (no_options\<lparr>opt_mode := Some DevServer\<rparr>)
     = Inr (default_client\<lparr>apiUrl := ''http://localhost:4747'', mode := DevServer\<rparr>)
   \<and> apiUrl (default_client\<lparr>apiUrl := ''http://localhost:4747'', mode := DevServer\<rparr>)
     = ''http://localhost:4747''
   \<and> test_client (no_options\<lparr>opt_mode := Some Direct\<rparr>) = Inr direct_client
   \<and> apiUrl direct_client = []
   \<and> test_client no_options = Inr default_client
   \<and> apiUrl default_client = ''https://zeplo.to''"
proof -
  let ?pe = "test_env\<lparr>ZEPLO_API_URL := Some ''https://bar.com''\<rparr>"
  have b1: "ZeploClient test_host ?pe test_handler ''route''
       (no_options\<lparr>opt_apiUrl := Some ''https://foo.com'', opt_mode := Some DevServer\<rparr>)
     = Inr (default_client\<lparr>apiUrl := ''https://foo.com'', mode := DevServer\<rparr>)"
    by (simp add: fixture_defs ZeploClient_def env_oldSecrets_def)
  have b2: "ZeploClient test_host ?pe test_handler ''route'' (no_options\<lparr>opt_mode := Some DevServer\<rparr>)
     = Inr (default_client\<lparr>apiUrl := ''https://bar.com'', mode := DevServer\<rparr>)"
    by (simp add: fixture_defs ZeploClient_def env_oldSecrets_def)
  have b3: "ZeploClient test_host test_env test_handler ''route'' (no_options\<lparr>opt_mode := Some DevServer\<rparr>)
     = Inr (default_client\<lparr>apiUrl := ''http://localhost:4747'', mode := DevServer\<rparr>)"
    by (simp add: fixture_defs ZeploClient_def env_oldSecrets_def)
  have b4: "ZeploClient test_host test_env test_handler ''route'' (no_options\<lparr>opt_mode := Some Direct\<rparr>)
     = Inr direct_client"
    using direct_client_built by (simp add: test_client_def)
  have b5: "ZeploClient test_host test_env test_handler ''route'' no_options = Inr default_client"
    using default_client_built by (simp add: test_client_def)
  have a1: "apiUrl (default_client\<lparr>apiUrl := ''https://foo.com'', mode := DevServer\<rparr>) = ''https://foo.com''"
    using apiUrl_resolution [OF b1] by (simp add: no_options_def)
  have a2: "apiUrl (default_client\<lparr>apiUrl := ''https://bar.com'', mode := DevServer\<rparr>) = ''https://bar.com''"
    using apiUrl_resolution [OF b2] by (simp add: no_options_def test_env_def)
  have a3: "apiUrl (default_client\<lparr>apiUrl := ''http://localhost:4747'', mode := DevServer\<rparr>)
      = ''http://localhost:4747''"
    using apiUrl_resolution [OF b3] by (simp add: no_options_def test_env_def)
  have a4: "apiUrl direct_client = []"
    using apiUrl_resolution [OF b4] by (simp add: no_options_def test_env_def)
  have a5: "apiUrl default_client = ''https://zeplo.to''"
    using apiUrl_resolution [OF b5] by (simp add: no_options_def test_env_def)
  show ?thesis
    using b1 b2 b3 b4 b5 a1 a2 a3 a4 a5 by (simp add: test_client_def)
qed

section \<open>Lemmas on the query string\<close>

text \<open>Splitting undoes joining when no part holds the separator.\<close>

lemma split_on_free: "sep \<notin> set x \<Longrightarrow> split_on sep x = [x]"
  by (induction x) auto

lemma split_on_append:
  "sep \<notin> set x \<Longrightarrow> split_on sep (x @ sep # s) = x # split_on sep s"
  by (induction x) auto

lemma split_on_join:
  "xs \<noteq> [] \<Longrightarrow> (\<And>x. x \<in> set xs \<Longrightarrow> sep \<notin> set x) \<Longrightarrow> split_on sep (join [sep] xs) = xs"
proof (induction "[sep]" xs rule: join.induct)
  case 1
  then show ?case by simp
next
  case (2 y)
  then show ?case by (simp add: split_on_free)
next
  case (3 y z zs)
  have "split_on sep (join [sep] (z # zs)) = z # zs"
    using 3 by simp
  moreover have "sep \<notin> set y"
    using "3.prems" by simp
  ultimately show ?case
    by (simp add: split_on_append)
qed

text \<open>The encoding writes no ampersand.\<close>

lemma hex_digit_no_amp: "n < 16 \<Longrightarrow> hex_digit n \<noteq> CHR ''&''"
proof
  assume small: "n < 16" and amp: "hex_digit n = CHR ''&''"
  have "hex_digit n \<in> set ''0123456789ABCDEF''"
    unfolding hex_digit_def using small by (intro nth_mem) simp
  with amp show False
    by simp
qed

lemma urlencode_byte_no_amp: "CHR ''&'' \<notin> set (urlencode_byte ch)"
proof -
  have "(of_char ch :: nat) < 16 * 16"
    by simp
  then have "(of_char ch :: nat) div 16 < 16"
    by (simp only: less_mult_imp_div_less)
  then have d: "hex_digit (of_char ch div 16) \<noteq> CHR ''&''"
    by (rule hex_digit_no_amp)
  have m: "hex_digit (of_char ch mod 16) \<noteq> CHR ''&''"
    by (rule hex_digit_no_amp) simp
  show ?thesis
    using d m by (auto simp: urlencode_byte_def urlencoded_safe_def)
qed

lemma urlencode_no_amp: "CHR ''&'' \<notin> set (urlencode s)"
  by (induction s) (auto simp: urlencode_def urlencode_byte_no_amp)

text \<open>The components of the query string are the encoded entries, in order.\<close>

lemma split_query:
  "es \<noteq> [] \<Longrightarrow>
     split_on CHR ''&'' (URLSearchParams_toString es)
       = map (\<lambda>(k, v). urlencode k @ ''='' @ urlencode v) es"
  unfolding URLSearchParams_toString_def
  by (rule split_on_join) (auto simp: urlencode_no_amp)

lemma urlencode_keys:
  "urlencode ''_env'' = ''_env''" "urlencode ''_trace'' = ''_trace''"
  "urlencode ''_delay'' = ''_delay''" "urlencode ''_delay_until'' = ''_delay_until''"
  "urlencode ''_retry'' = ''_retry''"
  by (simp_all add: text_defs)

text \<open>The values that the entries of the query give one key.\<close>

lemma entries_of_key:
  "[v. (k, v) \<leftarrow> trace_entries t, k = ''_env''] = []"
  "[v. (k, v) \<leftarrow> delay_entries h d, k = ''_env''] = []"
  "[v. (k, v) \<leftarrow> retry_entries h r, k = ''_env''] = []"
  "[v. (k, v) \<leftarrow> trace_entries t, k = ''_trace''] = (case t of None \<Rightarrow> [] | Some x \<Rightarrow> if x = [] then [] else [x])"
  "[v. (k, v) \<leftarrow> delay_entries h d, k = ''_trace''] = []"
  "[v. (k, v) \<leftarrow> retry_entries h r, k = ''_trace''] = []"
  "[v. (k, v) \<leftarrow> trace_entries t, k = ''_delay''] = []"
  "[v. (k, v) \<leftarrow> retry_entries h r, k = ''_delay''] = []"
  "[v. (k, v) \<leftarrow> trace_entries t, k = ''_delay_until''] = []"
  "[v. (k, v) \<leftarrow> retry_entries h r, k = ''_delay_until''] = []"
  by (cases t rule: trace_entries.cases; cases "(h, d)" rule: delay_entries.cases;
      cases "(h, r)" rule: retry_entries.cases; simp)+

lemma trace_key: "(''_trace'' \<in> fst ` set (search_entries h c opts)) = (\<not> falsy (trace opts))"
proof -
  have t: "(''_trace'' \<in> fst ` set (trace_entries x)) = (\<not> falsy x)" for x
    by (cases x) auto
  have d: "''_trace'' \<notin> fst ` set (delay_entries h x)" for x
    by (cases "(h, x)" rule: delay_entries.cases) auto
  have r: "''_trace'' \<notin> fst ` set (retry_entries h x)" for x
    by (cases "(h, x)" rule: retry_entries.cases) auto
  show ?thesis
    using t d r by (simp add: search_entries_def image_Un)
qed

section \<open>The query string\<close>

text \<open>
  A delay of 0 or \<open>NaN\<close> and an empty trace are falsy: the call supplies them, and the
  query carries neither \<open>_delay\<close> nor \<open>_trace\<close>.
\<close>

theorem query_parameters_counterexample:
  "search_entries test_host default_client
       \<lparr>trace = Some [], delay = Some (DelayNumber (Finite 0)), retry = None\<rparr>
     = [(''_env'', ''test'')]
   \<and> search_entries test_host default_client
       \<lparr>trace = Some [], delay = Some (DelayNumber NaN), retry = None\<rparr>
     = [(''_env'', ''test'')]
   \<and> map req_url (snd (enqueue test_host default_client test_fetch ''foo'' 0 test_payload
         \<lparr>trace = Some [], delay = Some (DelayNumber (Finite 0)), retry = None\<rparr>))
       = [''https://zeplo.to/route?_env=test'']
   \<and> \<not> sublist ''_delay'' ''https://zeplo.to/route?_env=test''
   \<and> \<not> sublist ''_trace'' ''https://zeplo.to/route?_env=test''"
  by (simp add: fixture_defs enqueue_defs text_defs sublist_Cons_right)

text \<open>
  C5 (as amended): for every request that \<open>enqueue\<close> issues, the query string follows the
  target URL and a question mark, and its components between ampersands are the encoded
  entries \<open>key=value\<close>. There is always exactly one \<open>_env\<close>. There is a \<open>_trace\<close> exactly
  when a non-empty trace is supplied, and its value is the trace. When the effective delay
  is a number \<open>d\<close> other than 0 and \<open>NaN\<close> there is exactly one \<open>_delay\<close> and its value
  is the text of \<open>d\<close>; when it is a \<open>Date\<close> there is exactly one \<open>_delay_until\<close> and its
  value is the text of the date's time value in milliseconds.
\<close>

theorem query_parameters:
  assumes "req \<in> set (snd (enqueue h c fetch v4 now payload opts))"
  shows "req_url req = target_url c @ ''?'' @ URLSearchParams_toString (search_entries h c opts)
     \<and> split_on CHR ''&'' (URLSearchParams_toString (search_entries h c opts))
         = map (\<lambda>(k, v). urlencode k @ ''='' @ urlencode v) (search_entries h c opts)
     \<and> [v. (k, v) \<leftarrow> search_entries h c opts, k = ''_env'']
         = [case env c of None \<Rightarrow> ''undefined'' | Some e \<Rightarrow> e]
     \<and> (''_env='' @ urlencode (case env c of None \<Rightarrow> ''undefined'' | Some e \<Rightarrow> e))
         \<in> set (split_on CHR ''&'' (URLSearchParams_toString (search_entries h c opts)))
     \<and> (''_trace'' \<in> fst ` set (search_entries h c opts)) = (\<not> falsy (trace opts))
     \<and> (\<forall>t. trace opts = Some t \<and> t \<noteq> [] \<longrightarrow>
          [v. (k, v) \<leftarrow> search_entries h c opts, k = ''_trace''] = [t]
          \<and> (''_trace='' @ urlencode t)
              \<in> set (split_on CHR ''&'' (URLSearchParams_toString (search_entries h c opts))))
     \<and> (\<forall>d. or_default (delay opts) (defaultDelay c) = Some (DelayNumber d) \<and> \<not> falsy_number d \<longrightarrow>
          [v. (k, v) \<leftarrow> search_entries h c opts, k = ''_delay''] = [number_to_string h d]
          \<and> (''_delay='' @ urlencode (number_to_string h d))
              \<in> set (split_on CHR ''&'' (URLSearchParams_toString (search_entries h c opts))))
     \<and> (\<forall>d. or_default (delay opts) (defaultDelay c) = Some (DelayDate d) \<longrightarrow>
          [v. (k, v) \<leftarrow> search_entries h c opts, k = ''_delay_until'']
            = [number_to_string h (date_valueOf d)]
          \<and> (''_delay_until='' @ urlencode (number_to_string h (date_valueOf d)))
              \<in> set (split_on CHR ''&'' (URLSearchParams_toString (search_entries h c opts))))"
proof -
  let ?es = "search_entries h c opts"
  let ?q = "URLSearchParams_toString ?es"
  let ?pair = "\<lambda>(k, v). urlencode k @ ''='' @ urlencode v"
  let ?e = "case env c of None \<Rightarrow> ''undefined'' | Some e \<Rightarrow> e"
  from enqueue_requests [OF assms] obtain e where "req = build_request h c v4 now opts e"
    by blast
  then have url: "req_url req = target_url c @ ''?'' @ ?q"
    by (simp add: build_request_def)
  have "?es \<noteq> []"
    by (simp add: search_entries_def)
  then have parts: "split_on CHR ''&'' ?q = map ?pair ?es"
    by (rule split_query)
  have part: "(urlencode k @ ''='' @ urlencode v) \<in> set (split_on CHR ''&'' ?q)"
    if "(k, v) \<in> set ?es" for k v
    using that by (force simp: parts)
  have env1: "[v. (k, v) \<leftarrow> ?es, k = ''_env''] = [?e]"
    by (simp add: search_entries_def entries_of_key)
  have "(''_env'', ?e) \<in> set ?es"
    by (simp add: search_entries_def)
  from part [OF this] have env2: "(''_env='' @ urlencode ?e) \<in> set (split_on CHR ''&'' ?q)"
    by (simp add: urlencode_keys)
  have tr: "[v. (k, v) \<leftarrow> ?es, k = ''_trace''] = [t]
      \<and> (''_trace='' @ urlencode t) \<in> set (split_on CHR ''&'' ?q)"
    if "trace opts = Some t" "t \<noteq> []" for t
  proof -
    have "(''_trace'', t) \<in> set ?es"
      using that by (simp add: search_entries_def)
    from part [OF this] have "(''_trace='' @ urlencode t) \<in> set (split_on CHR ''&'' ?q)"
      by (simp add: urlencode_keys)
    moreover have "[v. (k, v) \<leftarrow> ?es, k = ''_trace''] = [t]"
      using that by (simp add: search_entries_def entries_of_key)
    ultimately show ?thesis
      by simp
  qed
  have dn: "[v. (k, v) \<leftarrow> ?es, k = ''_delay''] = [number_to_string h d]
      \<and> (''_delay='' @ urlencode (number_to_string h d)) \<in> set (split_on CHR ''&'' ?q)"
    if "or_default (delay opts) (defaultDelay c) = Some (DelayNumber d)" "\<not> falsy_number d" for d
  proof -
    have "(''_delay'', number_to_string h d) \<in> set ?es"
      using that by (simp add: search_entries_def)
    from part [OF this]
    have "(''_delay='' @ urlencode (number_to_string h d)) \<in> set (split_on CHR ''&'' ?q)"
      by (simp add: urlencode_keys)
    moreover have "[v. (k, v) \<leftarrow> ?es, k = ''_delay''] = [number_to_string h d]"
      using that by (simp add: search_entries_def entries_of_key)
    ultimately show ?thesis
      by simp
  qed
  have dd: "[v. (k, v) \<leftarrow> ?es, k = ''_delay_until''] = [number_to_string h (date_valueOf d)]
      \<and> (''_delay_until='' @ urlencode (number_to_string h (date_valueOf d)))
          \<in> set (split_on CHR ''&'' ?q)"
    if "or_default (delay opts) (defaultDelay c) = Some (DelayDate d)" for d
  proof -
    have "(''_delay_until'', number_to_string h (date_valueOf d)) \<in> set ?es"
      using that by (simp add: search_entries_def)
    from part [OF this]
    have "(''_delay_until='' @ urlencode (number_to_string h (date_valueOf d)))
        \<in> set (split_on CHR ''&'' ?q)"
      by (simp add: urlencode_keys)
    moreover have "[v. (k, v) \<leftarrow> ?es, k = ''_delay_until''] = [number_to_string h (date_valueOf d)]"
      using that by (simp add: search_entries_def entries_of_key)
    ultimately show ?thesis
      by simp
  qed
  show ?thesis
    using url parts env1 env2 trace_key [of h c opts] tr dn dd by blast
qed

theorem query_parameters_witness:
  "build_request test_host default_client ''foo'' 0
        \<lparr>trace = Some ''foo'', delay = Some (DelayNumber (Finite 10)), retry = None\<rparr> test_body
      \<in> set (snd (enqueue test_host default_client test_fetch ''foo'' 0 test_payload
            \<lparr>trace = Some ''foo'', delay = Some (DelayNumber (Finite 10)), retry = None\<rparr>))
   \<and> req_url (build_request test_host default_client ''foo'' 0
        \<lparr>trace = Some ''foo'', delay = Some (DelayNumber (Finite 10)), retry = None\<rparr> test_body)
      = ''https://zeplo.to/route?_env=test&_trace=foo&_delay=10''
   \<and> split_on CHR ''&'' ''_env=test&_trace=foo&_delay=10''
      = [''_env=test'', ''_trace=foo'', ''_delay=10'']
   \<and> \<not> falsy_number (Finite 10)
   \<and> ''_env=test'' \<in> set (split_on CHR ''&'' ''_env=test&_trace=foo&_delay=10'')
   \<and> ''_trace=foo'' \<in> set (split_on CHR ''&'' ''_env=test&_trace=foo&_delay=10'')
   \<and> ''_delay=10'' \<in> set (split_on CHR ''&'' ''_env=test&_trace=foo&_delay=10'')
   \<and> build_request test_host (default_client\<lparr>defaultDelay := Some (DelayDate (Date 1970000))\<rparr>)
        ''foo'' 0 no_enqueue_options test_body
      \<in> set (snd (enqueue test_host (default_client\<lparr>defaultDelay := Some (DelayDate (Date 1970000))\<rparr>)
            test_fetch ''foo'' 0 test_payload no_enqueue_options))
   \<and> ''_delay_until=1970000'' \<in> set (split_on CHR ''&'' ''_env=test&_delay_until=1970000'')"
proof -
  let ?o = "\<lparr>trace = Some ''foo'', delay = Some (DelayNumber (Finite 10)), retry = None\<rparr>"
  let ?c = "default_client\<lparr>defaultDelay := Some (DelayDate (Date 1970000))\<rparr>"
  have m2: "build_request test_host default_client ''foo'' 0 ?o test_body
      \<in> set (snd (enqueue test_host default_client test_fetch ''foo'' 0 test_payload ?o))"
    by (simp add: enqueue_test_fetch [where s = test_body and e = test_body]
        default_stringify default_encrypt)
  have m3: "build_request test_host ?c ''foo'' 0 no_enqueue_options test_body
      \<in> set (snd (enqueue test_host ?c test_fetch ''foo'' 0 test_payload no_enqueue_options))"
    by (simp add: enqueue_test_fetch [where s = test_body and e = test_body]
        default_client_def test_JSON_def passthrough_def)
  have q2: "URLSearchParams_toString (search_entries test_host default_client ?o)
      = ''_env=test&_trace=foo&_delay=10''"
    by (simp add: fixture_defs enqueue_defs text_defs)
  have q3: "URLSearchParams_toString (search_entries test_host ?c no_enqueue_options)
      = ''_env=test&_delay_until=1970000''"
    by (simp add: fixture_defs enqueue_defs text_defs)
  have n1: "number_to_string test_host (Finite 10) = ''10''"
    and n2: "number_to_string test_host (date_valueOf (Date 1970000)) = ''1970000''"
    and n3: "urlencode ''test'' = ''test''" and n4: "urlencode ''foo'' = ''foo''"
    and n5: "urlencode ''10'' = ''10''" and n6: "urlencode ''1970000'' = ''1970000''"
    by (simp_all add: text_defs)
  have e: "env default_client = Some ''test''" "defaultDelay default_client = None"
    "env ?c = Some ''test''" "target_url default_client = ''https://zeplo.to/route''"
    by (simp_all add: default_client_def target_url_def)
  have d3: "or_default (delay no_enqueue_options) (defaultDelay ?c) = Some (DelayDate (Date 1970000))"
    by (simp add: no_enqueue_options_def)
  have sp: "split_on CHR ''&'' ''_env=test&_trace=foo&_delay=10''
      = [''_env=test'', ''_trace=foo'', ''_delay=10'']"
    by simp
  let ?q2 = "URLSearchParams_toString (search_entries test_host default_client ?o)"
  let ?q3 = "URLSearchParams_toString (search_entries test_host ?c no_enqueue_options)"
  have h2: "trace ?o = Some ''foo'' \<and> ''foo'' \<noteq> []"
    "or_default (delay ?o) (defaultDelay default_client) = Some (DelayNumber (Finite 10))
      \<and> \<not> falsy_number (Finite 10)"
    by (simp_all add: e)
  note t2 = query_parameters [OF m2]
  from t2 have "req_url (build_request test_host default_client ''foo'' 0 ?o test_body)
      = target_url default_client @ ''?'' @ ?q2"
    by blast
  then have u: "req_url (build_request test_host default_client ''foo'' 0 ?o test_body)
      = ''https://zeplo.to/route?_env=test&_trace=foo&_delay=10''"
    by (simp add: q2 e)
  from t2 have "(''_env='' @ urlencode (case env default_client of None \<Rightarrow> ''undefined'' | Some e \<Rightarrow> e))
      \<in> set (split_on CHR ''&'' ?q2)"
    by blast
  then have w1: "''_env=test'' \<in> set (split_on CHR ''&'' ''_env=test&_trace=foo&_delay=10'')"
    by (simp add: q2 e n3 del: split_on.simps)
  from t2 h2(1) have "(''_trace='' @ urlencode ''foo'') \<in> set (split_on CHR ''&'' ?q2)"
    by blast
  then have w2: "''_trace=foo'' \<in> set (split_on CHR ''&'' ''_env=test&_trace=foo&_delay=10'')"
    by (simp add: q2 n4 del: split_on.simps)
  from t2 h2(2)
  have "(''_delay='' @ urlencode (number_to_string test_host (Finite 10))) \<in> set (split_on CHR ''&'' ?q2)"
    by blast
  then have w3: "''_delay=10'' \<in> set (split_on CHR ''&'' ''_env=test&_trace=foo&_delay=10'')"
    by (simp add: q2 n1 n5 del: split_on.simps)
  from query_parameters [OF m3] d3
  have "(''_delay_until='' @ urlencode (number_to_string test_host (date_valueOf (Date 1970000))))
      \<in> set (split_on CHR ''&'' ?q3)"
    by blast
  then have w4: "''_delay_until=1970000'' \<in> set (split_on CHR ''&'' ''_env=test&_delay_until=1970000'')"
    by (simp add: q3 n2 n6 del: split_on.simps date_valueOf.simps)
  show ?thesis
    using m2 m3 u sp w1 w2 w3 w4 by (simp del: split_on.simps)
qed

section \<open>The headers of the request\<close>

text \<open>
  In production mode without a token the request carries no header at all: neither the
  token header nor the identity headers.
\<close>

theorem request_headers_counterexample:
  "mode default_client = Production \<and> zeploToken default_client = None
   \<and> map req_headers (snd (enqueue test_host default_client test_fetch ''foo'' 0 test_payload no_enqueue_options))
       = [[]]"
  by (simp add: default_enqueue) (simp add: fixture_defs)

text \<open>
  C2 (as amended): for every request that \<open>enqueue\<close> issues, the header
  \<open>X-Zeplo-Token\<close> is present exactly when the mode is not direct and a non-empty token
  is configured; the identity headers \<open>X-Zeplo-Id\<close> and \<open>X-Zeplo-Start\<close> are present
  exactly in direct mode; the token header is never present together with an identity
  header.
\<close>

theorem request_headers_exclusive:
  assumes "req \<in> set (snd (enqueue h c fetch v4 now payload opts))"
  shows "(''X-Zeplo-Token'' \<in> fst ` set (req_headers req)) = (mode c \<noteq> Direct \<and> \<not> falsy (zeploToken c))
     \<and> (''X-Zeplo-Id'' \<in> fst ` set (req_headers req)) = (mode c = Direct)
     \<and> (''X-Zeplo-Start'' \<in> fst ` set (req_headers req)) = (mode c = Direct)
     \<and> \<not> (''X-Zeplo-Token'' \<in> fst ` set (req_headers req)
          \<and> ''X-Zeplo-Id'' \<in> fst ` set (req_headers req))
     \<and> \<not> (''X-Zeplo-Token'' \<in> fst ` set (req_headers req)
          \<and> ''X-Zeplo-Start'' \<in> fst ` set (req_headers req))"
proof -
  from enqueue_requests [OF assms] obtain e where "req = build_request h c v4 now opts e"
    by blast
  then have "req_headers req = request_headers h c v4 now"
    by (simp add: build_request_def)
  then show ?thesis
    by (cases "zeploToken c") (auto simp: request_headers_def)
qed

theorem request_headers_exclusive_witness:
  "build_request test_host direct_client ''foo'' 1696486441000 no_enqueue_options test_body
     \<in> set (snd (enqueue test_host direct_client test_fetch ''foo'' 1696486441000 test_payload no_enqueue_options))
   \<and> req_headers (build_request test_host direct_client ''foo'' 1696486441000 no_enqueue_options test_body)
       = [(''X-Zeplo-Id'', ''foo-iow''), (''X-Zeplo-Start'', ''1696486441'')]
   \<and> mode direct_client = Direct
   \<and> ''X-Zeplo-Token'' \<notin> fst ` set (req_headers
         (build_request test_host direct_client ''foo'' 1696486441000 no_enqueue_options test_body))
   \<and> build_request test_host (default_client\<lparr>zeploToken := Some ''bar''\<rparr>) ''foo'' 0 no_enqueue_options test_body
     \<in> set (snd (enqueue test_host (default_client\<lparr>zeploToken := Some ''bar''\<rparr>) test_fetch ''foo'' 0
           test_payload no_enqueue_options))
   \<and> req_headers (build_request test_host (default_client\<lparr>zeploToken := Some ''bar''\<rparr>) ''foo'' 0
         no_enqueue_options test_body) = [(''X-Zeplo-Token'', ''bar'')]
   \<and> ''X-Zeplo-Id'' \<notin> fst ` set (req_headers
         (build_request test_host (default_client\<lparr>zeploToken := Some ''bar''\<rparr>) ''foo'' 0
            no_enqueue_options test_body))"
proof -
  let ?t = "default_client\<lparr>zeploToken := Some ''bar''\<rparr>"
  let ?rd = "build_request test_host direct_client ''foo'' 1696486441000 no_enqueue_options test_body"
  let ?rt = "build_request test_host ?t ''foo'' 0 no_enqueue_options test_body"
  have m1: "?rd \<in> set (snd (enqueue test_host direct_client test_fetch ''foo'' 1696486441000 test_payload
      no_enqueue_options))"
    by (simp add: enqueue_test_fetch [where s = test_body and e = test_body]
        direct_client_def default_client_def test_JSON_def passthrough_def)
  have m2: "?rt \<in> set (snd (enqueue test_host ?t test_fetch ''foo'' 0 test_payload no_enqueue_options))"
    by (simp add: enqueue_test_fetch [where s = test_body and e = test_body]
        default_client_def test_JSON_def passthrough_def)
  have h1: "req_headers ?rd = [(''X-Zeplo-Id'', ''foo-iow''), (''X-Zeplo-Start'', ''1696486441'')]"
    by (simp add: build_request_def request_headers_def direct_client_def default_client_def
        text_defs)
  have h2: "req_headers ?rt = [(''X-Zeplo-Token'', ''bar'')]"
    by (simp add: build_request_def request_headers_def default_client_def)
  have md: "mode direct_client = Direct" "mode ?t = Production"
    by (simp_all add: direct_client_def default_client_def)
  from request_headers_exclusive [OF m1]
  have w1: "''X-Zeplo-Token'' \<notin> fst ` set (req_headers ?rd)"
    by (simp add: md)
  from request_headers_exclusive [OF m2]
  have w2: "''X-Zeplo-Id'' \<notin> fst ` set (req_headers ?rt)"
    by (simp add: md)
  show ?thesis
    using m1 m2 h1 h2 md w1 w2 by simp
qed

section \<open>The answer of the service\<close>

text \<open>
  C6: when the payload is serialized and encrypted, \<open>fetch\<close> resolves and the status of
  the response is at least 400, \<open>enqueue\<close> rejects; when the text of the response can be
  read, the error is an \<open>Error\<close> whose message is built from the serialized payload, the
  target URL and that text, and contains all three.
\<close>

theorem enqueue_rejects_on_error_status:
  assumes "stringify (serializer c) payload = Inr s"
    and "encrypt (encryptor c) s = Inr e"
    and "fetch (build_request h c v4 now opts e) = Inr res"
    and "res_status res \<ge> 400"
  shows "\<exists>err. fst (enqueue h c fetch v4 now payload opts) = Inl err
     \<and> (\<forall>txt. res_text res = Inr txt \<longrightarrow>
          err = Error ''Error'' (unexpected_response s (target_url c) txt)
          \<and> sublist s (unexpected_response s (target_url c) txt)
          \<and> sublist (target_url c) (unexpected_response s (target_url c) txt)
          \<and> sublist txt (unexpected_response s (target_url c) txt))"
proof (cases "res_text res")
  case (Inl err)
  with assms show ?thesis
    by (simp add: enqueue_def Let_def)
next
  case (Inr t)
  let ?m = "unexpected_response s (target_url c) t"
  have "fst (enqueue h c fetch v4 now payload opts) = Inl (Error ''Error'' ?m)"
    using assms Inr by (simp add: enqueue_def Let_def)
  moreover have "sublist s ?m"
    unfolding unexpected_response_def by (rule sublist_appendI)
  moreover have "sublist (target_url c) ?m"
  proof -
    have \<open>?m = (''Unexpected response while trying to enqueue "'' @ s @ ''" to '')
        @ target_url c @ ('': '' @ t)\<close>
      by (simp add: unexpected_response_def)
    then show ?thesis
      by (simp only: sublist_appendI)
  qed
  moreover have "sublist t ?m"
  proof -
    have \<open>?m = (''Unexpected response while trying to enqueue "'' @ s @ ''" to ''
        @ target_url c @ '': '') @ t\<close>
      by (simp add: unexpected_response_def)
    then show ?thesis
      by (simp only: sublist_append_leftI)
  qed
  ultimately show ?thesis
    using Inr by simp
qed

theorem enqueue_rejects_on_error_status_witness:
  \<open>stringify (serializer default_client) test_payload = Inr test_body
   \<and> encrypt (encryptor default_client) test_body = Inr test_body
   \<and> (400::int) \<le> res_status (test_response\<lparr>res_status := 400\<rparr>)
   \<and> res_text (test_response\<lparr>res_status := 400\<rparr>) = Inr ''res.text''
   \<and> fst (enqueue test_host default_client (\<lambda>req. Inr (test_response\<lparr>res_status := 400\<rparr>)) ''foo'' 0
          test_payload no_enqueue_options)
       = Inl (Error ''Error''
           ''Unexpected response while trying to enqueue "{"foo":"bar"}" to https://zeplo.to/route: res.text'')
   \<and> sublist ''{"foo":"bar"}''
         ''Unexpected response while trying to enqueue "{"foo":"bar"}" to https://zeplo.to/route: res.text''
   \<and> sublist ''https://zeplo.to/route''
         ''Unexpected response while trying to enqueue "{"foo":"bar"}" to https://zeplo.to/route: res.text''
   \<and> sublist ''res.text''
         ''Unexpected response while trying to enqueue "{"foo":"bar"}" to https://zeplo.to/route: res.text''\<close>
proof -
  let ?res = "test_response\<lparr>res_status := 400\<rparr>"
  let ?fetch = "\<lambda>req :: request. (Inr ?res :: js_error + response)"
  have f: "?fetch (build_request test_host default_client ''foo'' 0 no_enqueue_options test_body) = Inr ?res"
    by simp
  have st: "400 \<le> res_status ?res"
    by simp
  have tx: "res_text ?res = Inr ''res.text''"
    by (simp add: test_response_def)
  have m: \<open>unexpected_response test_body (target_url default_client) ''res.text''
      = ''Unexpected response while trying to enqueue "{"foo":"bar"}" to https://zeplo.to/route: res.text''\<close>
    by (simp add: unexpected_response_def target_url_def default_client_def test_body_def)
  from enqueue_rejects_on_error_status [OF default_stringify default_encrypt f st] tx
  show ?thesis
    by (auto simp: m default_stringify default_encrypt) (simp_all add: test_body_def target_url_def default_client_def)
qed

section \<open>The request and the result of \<open>enqueue\<close>\<close>

lemma ZeploClient_encryptor:
  assumes "ZeploClient h pe hdl rt os = Inr c"
  shows "(falsy (encryptionSecret c) \<longrightarrow> encryptor c = passthrough)
     \<and> (\<forall>k. encryptionSecret c = Some k \<and> k \<noteq> [] \<longrightarrow>
          new_Encryptor h k (oldSecrets c) = Inr (encryptor c))"
  using assms
  by (auto simp: ZeploClient_def Let_def split: sum.splits option.splits if_splits)

lemma z_string_Inr: "(z_string path v = Inr s) = (v = JString s)"
  by (cases v) auto

lemma z_id_Inr:
  "(z_id v = Inr r) = (\<exists>obj i. v = JObject obj \<and> get_prop obj ''id'' = JString i
      \<and> r = JObject [(''id'', JString i)])"
  by (cases v) (auto simp: z_string_Inr split: sum.splits)

lemma sum_not_Inr: "(\<forall>r. x \<noteq> Inr r) \<Longrightarrow> \<exists>l. x = Inl l"
  by (cases x) auto

text \<open>
  C7: for a client built by \<open>ZeploClient\<close> and a payload that the serializer and the
  encryptor accept, \<open>enqueue\<close> hands exactly one request to \<open>fetch\<close>, a POST whose body
  is the encrypted serialized payload: the serialized payload itself when no encryption
  secret is configured, the text that the configured secret's encryptor gives otherwise.
  When the service answers with a status below 400 and JSON that is an object with a
  string \<open>id\<close>, \<open>enqueue\<close> resolves with the object of that \<open>id\<close>; when the JSON has no
  string \<open>id\<close>, it rejects with the schema's error.
\<close>

theorem enqueue_posts_once:
  assumes "ZeploClient h pe hdl rt os = Inr c"
    and "stringify (serializer c) payload = Inr s"
    and "encrypt (encryptor c) s = Inr e"
  shows "\<exists>req. snd (enqueue h c fetch v4 now payload opts) = [req]
     \<and> req_method req = ''POST'' \<and> req_body req = e
     \<and> (falsy (encryptionSecret c) \<longrightarrow> e = s)
     \<and> (\<forall>k. encryptionSecret c = Some k \<and> k \<noteq> [] \<longrightarrow>
          new_Encryptor h k (oldSecrets c) = Inr (encryptor c))
     \<and> (\<forall>res v. fetch req = Inr res \<and> res_status res < 400 \<and> res_json res = Inr v \<longrightarrow>
          (\<forall>obj i. v = JObject obj \<and> get_prop obj ''id'' = JString i \<longrightarrow>
             fst (enqueue h c fetch v4 now payload opts) = Inr (JObject [(''id'', JString i)]))
          \<and> ((\<forall>obj i. v = JObject obj \<longrightarrow> get_prop obj ''id'' \<noteq> JString i) \<longrightarrow>
             (\<exists>issues. fst (enqueue h c fetch v4 now payload opts) = Inl (ZodError issues))))"
proof -
  let ?req = "build_request h c v4 now opts e"
  have once: "snd (enqueue h c fetch v4 now payload opts) = [?req]"
    using assms(2,3) by (simp add: enqueue_def Let_def split: sum.splits)
  have post: "req_method ?req = ''POST''" "req_body ?req = e"
    by (simp_all add: build_request_def)
  note enc = ZeploClient_encryptor [OF assms(1)]
  have plain: "e = s" if "falsy (encryptionSecret c)"
    using enc that assms(3) by (simp add: passthrough_def)
  have ok: "fst (enqueue h c fetch v4 now payload opts) = Inr (JObject [(''id'', JString i)])"
    if "fetch ?req = Inr res" "res_status res < 400" "res_json res = Inr v"
      "v = JObject obj" "get_prop obj ''id'' = JString i" for res v obj i
    using assms(2,3) that by (simp add: enqueue_def Let_def)
  have bad: "\<exists>issues. fst (enqueue h c fetch v4 now payload opts) = Inl (ZodError issues)"
    if "fetch ?req = Inr res" "res_status res < 400" "res_json res = Inr v"
      "\<forall>obj i. v = JObject obj \<longrightarrow> get_prop obj ''id'' \<noteq> JString i" for res v
  proof -
    from that(4) have "\<forall>r. z_id v \<noteq> Inr r"
      by (auto simp: z_id_Inr)
    then obtain issues where "z_id v = Inl issues"
      using sum_not_Inr by blast
    with assms(2,3) that(1-3) show ?thesis
      by (simp add: enqueue_def Let_def)
  qed
  show ?thesis
    using once post plain enc ok bad by blast
qed

theorem enqueue_posts_once_witness:
  "ZeploClient test_host test_env test_handler ''route'' no_options = Inr default_client
   \<and> stringify (serializer default_client) test_payload = Inr test_body
   \<and> encrypt (encryptor default_client) test_body = Inr test_body
   \<and> snd (enqueue test_host default_client test_fetch ''foo'' 0 test_payload no_enqueue_options) = [test_request]
   \<and> req_method test_request = ''POST''
   \<and> req_body test_request = test_body
   \<and> fst (enqueue test_host default_client test_fetch ''foo'' 0 test_payload no_enqueue_options)
       = Inr (JObject [(''id'', JString ''foo'')])
   \<and> ZeploClient test_host test_env test_handler ''route''
         (no_options\<lparr>opt_encryptionSecret := Some ''6dea028d912dccf28d5e546141e1c048''\<rparr>)
       = Inr (default_client\<lparr>encryptionSecret := Some ''6dea028d912dccf28d5e546141e1c048'',
               encryptor := test_Encryptor\<rparr>)
   \<and> encrypt test_Encryptor test_body = Inr (rev test_body)
   \<and> map req_body (snd (enqueue test_host
         (default_client\<lparr>encryptionSecret := Some ''6dea028d912dccf28d5e546141e1c048'',
            encryptor := test_Encryptor\<rparr>) test_fetch ''foo'' 0 test_payload no_enqueue_options))
       = [rev test_body]"
proof -
  let ?k = "''6dea028d912dccf28d5e546141e1c048''"
  let ?c = "default_client\<lparr>encryptionSecret := Some ?k, encryptor := test_Encryptor\<rparr>"
  have b1: "ZeploClient test_host test_env test_handler ''route'' no_options = Inr default_client"
    using default_client_built by (simp add: test_client_def)
  have b2: "ZeploClient test_host test_env test_handler ''route''
      (no_options\<lparr>opt_encryptionSecret := Some ?k\<rparr>) = Inr ?c"
    by (simp add: fixture_defs ZeploClient_def env_oldSecrets_def)
  have s2: "stringify (serializer ?c) test_payload = Inr test_body"
    by (simp add: default_client_def test_JSON_def)
  have e2: "encrypt (encryptor ?c) test_body = Inr (rev test_body)"
    by (simp add: test_Encryptor_def)
  have r: "test_fetch req = Inr test_response" "res_status test_response < 400"
    "res_json test_response = Inr (JObject [(''id'', JString ''foo'')])"
    "get_prop [(''id'', JString ''foo'')] ''id'' = JString ''foo''" for req
    by (simp_all add: test_fetch_def test_response_def get_prop_def)
  from enqueue_posts_once [OF b1 default_stringify default_encrypt, of test_fetch "''foo''" 0
      no_enqueue_options]
  obtain req where req: "snd (enqueue test_host default_client test_fetch ''foo'' 0 test_payload
        no_enqueue_options) = [req]" "req_method req = ''POST''" "req_body req = test_body"
    and res: "\<forall>res v. test_fetch req = Inr res \<and> res_status res < 400 \<and> res_json res = Inr v \<longrightarrow>
          (\<forall>obj i. v = JObject obj \<and> get_prop obj ''id'' = JString i \<longrightarrow>
             fst (enqueue test_host default_client test_fetch ''foo'' 0 test_payload no_enqueue_options)
               = Inr (JObject [(''id'', JString i)]))"
    by blast
  from req(1) have same: "req = test_request"
    by (simp add: default_enqueue)
  from res r have id: "fst (enqueue test_host default_client test_fetch ''foo'' 0 test_payload no_enqueue_options)
      = Inr (JObject [(''id'', JString ''foo'')])"
    by blast
  from enqueue_posts_once [OF b2 s2 e2, of test_fetch "''foo''" 0 no_enqueue_options]
  obtain req2 where "snd (enqueue test_host ?c test_fetch ''foo'' 0 test_payload no_enqueue_options) = [req2]"
    "req_body req2 = rev test_body"
    by blast
  then have enc: "map req_body (snd (enqueue test_host ?c test_fetch ''foo'' 0 test_payload no_enqueue_options))
      = [rev test_body]"
    by simp
  show ?thesis
    using b1 b2 default_stringify default_encrypt req same id enc
    by (simp add: test_Encryptor_def)
qed

section \<open>The delivery\<close>

lemma z_zeplo_headers_Inr:
  "(z_zeplo_headers hs = Inr (jid, st))
     = (get_prop hs ''x-zeplo-id'' = JString jid \<and> get_prop hs ''x-zeplo-start'' = JString st)"
  by (auto simp: z_zeplo_headers_def z_string_Inr split: sum.splits)

text \<open>What \<open>decode\<close> gives when every step succeeds, and the step that failed when it does not.\<close>

lemma decode_Inr:
  "(decode h c b hs = Inr (p, m))
     = (\<exists>jid st s plain v.
          get_prop hs ''x-zeplo-id'' = JString jid \<and> get_prop hs ''x-zeplo-start'' = JString st
          \<and> b = JString s \<and> decrypt (encryptor c) s = Inr plain
          \<and> parse (serializer c) plain = Inr v \<and> schema c v = Inr p
          \<and> m = \<lparr>jobId = jid, start = new_Date (times_1000 h (parseFloat h st))\<rparr>)"
  (is "?l = ?r")
proof
  assume ?l
  then show ?r
    by (auto simp: decode_def z_zeplo_headers_Inr z_string_Inr split: sum.splits prod.splits)
next
  assume ?r
  then obtain jid st s plain v where
    "get_prop hs ''x-zeplo-id'' = JString jid" "get_prop hs ''x-zeplo-start'' = JString st"
    and rest: "b = JString s" "decrypt (encryptor c) s = Inr plain"
      "parse (serializer c) plain = Inr v" "schema c v = Inr p"
      "m = \<lparr>jobId = jid, start = new_Date (times_1000 h (parseFloat h st))\<rparr>"
    by blast
  then have "z_zeplo_headers hs = Inr (jid, st)"
    by (simp add: z_zeplo_headers_Inr)
  with rest show ?l
    by (simp add: decode_def)
qed

lemma decode_Inl:
  assumes "decode h c b hs = Inl error"
  shows "(\<exists>issues. z_zeplo_headers hs = Inl issues \<and> error = ZodError issues)
     \<or> (\<exists>issues. z_string [] b = Inl issues \<and> error = ZodError issues)
     \<or> (\<exists>s. b = JString s \<and> decrypt (encryptor c) s = Inl error)
     \<or> (\<exists>s plain. b = JString s \<and> decrypt (encryptor c) s = Inr plain
           \<and> parse (serializer c) plain = Inl error)
     \<or> (\<exists>s plain v. b = JString s \<and> decrypt (encryptor c) s = Inr plain
           \<and> parse (serializer c) plain = Inr v \<and> schema c v = Inl error)"
  using assms
  by (auto simp: decode_def z_string_Inr split: sum.splits prod.splits)

text \<open>
  The runs of \<open>respondTo\<close>. Either every step and the handler succeed: the reply is 200
  with the job id of the header and nothing is written. Or a step fails: its error is
  written, and the run ends with the 500 reply that holds the error as text when
  \<open>`${error}`\<close> gives a text, and with a rejection when that conversion throws.
\<close>

lemma respondTo_outcomes:
  "(\<exists>jid st s plain v p.
       get_prop hs ''x-zeplo-id'' = JString jid \<and> get_prop hs ''x-zeplo-start'' = JString st
       \<and> b = JString s \<and> decrypt (encryptor c) s = Inr plain
       \<and> parse (serializer c) plain = Inr v \<and> schema c v = Inr p
       \<and> handler c p \<lparr>jobId = jid, start = new_Date (times_1000 h (parseFloat h st))\<rparr> = Inr ()
       \<and> respondTo h c b hs
           = \<lparr>returned = Inr \<lparr>status = 200, body = JObject [(''id'', JString jid)]\<rparr>,
              console_error = [],
              handler_calls = [(p, \<lparr>jobId = jid, start = new_Date (times_1000 h (parseFloat h st))\<rparr>)]\<rparr>)
   \<or> (\<exists>error calls.
         respondTo h c b hs
           = \<lparr>returned =
                (case template_literal (zod_text h) error of
                   Inl thrown \<Rightarrow> Inl thrown
                 | Inr s \<Rightarrow> Inr \<lparr>status = 500, body = JString s\<rparr>),
              console_error = [error],
              handler_calls = calls\<rparr>
         \<and> ((\<exists>issues. z_zeplo_headers hs = Inl issues \<and> error = ZodError issues)
            \<or> (\<exists>issues. z_string [] b = Inl issues \<and> error = ZodError issues)
            \<or> (\<exists>s. b = JString s \<and> decrypt (encryptor c) s = Inl error)
            \<or> (\<exists>s plain. b = JString s \<and> decrypt (encryptor c) s = Inr plain
                  \<and> parse (serializer c) plain = Inl error)
            \<or> (\<exists>s plain v. b = JString s \<and> decrypt (encryptor c) s = Inr plain
                  \<and> parse (serializer c) plain = Inr v \<and> schema c v = Inl error)
            \<or> (\<exists>p m. decode h c b hs = Inr (p, m) \<and> handler c p m = Inl error)))"
proof (cases "decode h c b hs")
  case (Inl error)
  then have "respondTo h c b hs
      = \<lparr>returned =
           (case template_literal (zod_text h) error of
              Inl thrown \<Rightarrow> Inl thrown
            | Inr s \<Rightarrow> Inr \<lparr>status = 500, body = JString s\<rparr>),
         console_error = [error], handler_calls = []\<rparr>"
    by (simp add: respondTo_def respondTo_try_def)
  with decode_Inl [OF Inl] show ?thesis
    by blast
next
  case (Inr pm)
  obtain p m where pm: "pm = (p, m)"
    by (cases pm)
  show ?thesis
  proof (cases "handler c p m")
    case (Inl error)
    with Inr pm have "respondTo h c b hs
        = \<lparr>returned =
             (case template_literal (zod_text h) error of
                Inl thrown \<Rightarrow> Inl thrown
              | Inr s \<Rightarrow> Inr \<lparr>status = 500, body = JString s\<rparr>),
           console_error = [error], handler_calls = [(p, m)]\<rparr>"
      by (simp add: respondTo_def respondTo_try_def)
    with Inr pm Inl show ?thesis
      by blast
  next
    case ok: (Inr u)
    from Inr pm obtain jid st s plain v where d:
      "get_prop hs ''x-zeplo-id'' = JString jid" "get_prop hs ''x-zeplo-start'' = JString st"
      "b = JString s" "decrypt (encryptor c) s = Inr plain"
      "parse (serializer c) plain = Inr v" "schema c v = Inr p"
      "m = \<lparr>jobId = jid, start = new_Date (times_1000 h (parseFloat h st))\<rparr>"
      by (auto simp: decode_Inr)
    from Inr pm ok d(7) have "respondTo h c b hs
        = \<lparr>returned = Inr \<lparr>status = 200, body = JObject [(''id'', JString jid)]\<rparr>,
           console_error = [],
           handler_calls = [(p, \<lparr>jobId = jid, start = new_Date (times_1000 h (parseFloat h st))\<rparr>)]\<rparr>"
      by (simp add: respondTo_def respondTo_try_def)
    with d ok show ?thesis
      by auto
  qed
qed

text \<open>
  C1 fails on the code: \<open>respondTo\<close> can reject. When the delivery decodes and the handler
  rejects with a symbol, the \<open>catch\<close> clause writes the symbol with \<open>console.error\<close> and
  then converts it with \<open>`${error}`\<close>, which throws a \<open>TypeError\<close>: the promise rejects
  with that error and no 500 reply is returned.
\<close>

theorem respondTo_rejects_on_symbol:
  assumes "decode h c b hs = Inr (p, m)"
    and "handler c p m = Inl (Symbol description)"
  shows "respondTo h c b hs
     = \<lparr>returned = Inl (Error ''TypeError'' ''Cannot convert a Symbol value to a string''),
        console_error = [Symbol description],
        handler_calls = [(p, m)]\<rparr>"
  using assms by (simp add: respondTo_def respondTo_try_def)

lemmas respondTo_defs = respondTo_def respondTo_try_def decode_def z_zeplo_headers_def
  get_prop_def parseFloat_def is_digit_def space1_def space2_def space3_def digits_value_def
  to_double_def safe_integer_def

lemma test_delivery:
  "respondTo test_host default_client (JString test_body) test_headers
     = \<lparr>returned = Inr \<lparr>status = 200, body = JObject [(''id'', JString ''foo'')]\<rparr>,
        console_error = [],
        handler_calls = [(test_payload, \<lparr>jobId = ''foo'', start = Date 1970000\<rparr>)]\<rparr>"
  by (simp add: respondTo_defs fixture_defs)

lemma test_decode:
  "decode test_host (default_client\<lparr>handler := f\<rparr>) (JString test_body) test_headers
     = Inr (test_payload, \<lparr>jobId = ''foo'', start = Date 1970000\<rparr>)"
  by (simp add: respondTo_defs fixture_defs)

theorem respondTo_rejects_on_symbol_witness:
  "decode test_host (default_client\<lparr>handler := (\<lambda>p m. Inl (Symbol ''boom''))\<rparr>)
       (JString test_body) test_headers
     = Inr (test_payload, \<lparr>jobId = ''foo'', start = Date 1970000\<rparr>)
   \<and> handler (default_client\<lparr>handler := (\<lambda>p m. Inl (Symbol ''boom''))\<rparr>) test_payload
       \<lparr>jobId = ''foo'', start = Date 1970000\<rparr> = Inl (Symbol ''boom'')
   \<and> respondTo test_host (default_client\<lparr>handler := (\<lambda>p m. Inl (Symbol ''boom''))\<rparr>)
       (JString test_body) test_headers
     = \<lparr>returned = Inl (Error ''TypeError'' ''Cannot convert a Symbol value to a string''),
        console_error = [Symbol ''boom''],
        handler_calls = [(test_payload, \<lparr>jobId = ''foo'', start = Date 1970000\<rparr>)]\<rparr>"
proof -
  let ?c = "default_client\<lparr>handler := (\<lambda>p m. Inl (Symbol ''boom''))\<rparr>"
  have h: "handler ?c test_payload \<lparr>jobId = ''foo'', start = Date 1970000\<rparr> = Inl (Symbol ''boom'')"
    by simp
  from respondTo_rejects_on_symbol [OF test_decode h] test_decode [of "\<lambda>p m. Inl (Symbol ''boom'')"] h
  show ?thesis
    by simp
qed

text \<open>
  C10: when the headers hold the strings \<open>x-zeplo-id\<close> and \<open>x-zeplo-start\<close> and the
  body is not a string, \<open>respondTo\<close> returns the status 500 and the schema error as
  text, writes that error, and does not call the handler.
\<close>

theorem respondTo_body_not_string:
  assumes "get_prop hs ''x-zeplo-id'' = JString jid"
    and "get_prop hs ''x-zeplo-start'' = JString st"
    and "\<forall>s. b \<noteq> JString s"
  shows "respondTo h c b hs
     = \<lparr>returned = Inr \<lparr>status = 500,
          body = JString (zod_text h [InvalidType ''string'' (zod_type b) []])\<rparr>,
        console_error = [ZodError [InvalidType ''string'' (zod_type b) []]],
        handler_calls = []\<rparr>
     \<and> template_literal (zod_text h) (ZodError [InvalidType ''string'' (zod_type b) []])
       = Inr (zod_text h [InvalidType ''string'' (zod_type b) []])"
proof -
  have hs: "z_zeplo_headers hs = Inr (jid, st)"
    using assms(1,2) by (simp add: z_zeplo_headers_Inr)
  have "z_string [] b = Inl [InvalidType ''string'' (zod_type b) []]"
    using assms(3) by (cases b) auto
  with hs have "decode h c b hs = Inl (ZodError [InvalidType ''string'' (zod_type b) []])"
    by (simp add: decode_def)
  then show ?thesis
    by (simp add: respondTo_def respondTo_try_def)
qed

theorem respondTo_body_not_string_witness:
  "get_prop test_headers ''x-zeplo-id'' = JString ''foo''
   \<and> get_prop test_headers ''x-zeplo-start'' = JString ''1970-01-01T00:32:50.000Z''
   \<and> respondTo test_host default_client JUndefined test_headers
     = \<lparr>returned = Inr \<lparr>status = 500, body = JString ''invalid input''\<rparr>,
        console_error = [ZodError [InvalidType ''string'' ''undefined'' []]],
        handler_calls = []\<rparr>
   \<and> respondTo test_host default_client test_payload test_headers
     = \<lparr>returned = Inr \<lparr>status = 500, body = JString ''invalid input''\<rparr>,
        console_error = [ZodError [InvalidType ''string'' ''object'' []]],
        handler_calls = []\<rparr>"
proof -
  have hs: "get_prop test_headers ''x-zeplo-id'' = JString ''foo''"
    "get_prop test_headers ''x-zeplo-start'' = JString ''1970-01-01T00:32:50.000Z''"
    by (simp_all add: test_headers_def get_prop_def)
  have n1: "\<forall>s. JUndefined \<noteq> JString s" and n2: "\<forall>s. test_payload \<noteq> JString s"
    by (simp_all add: test_payload_def)
  from respondTo_body_not_string [OF hs n1, of test_host default_client]
    respondTo_body_not_string [OF hs n2, of test_host default_client] hs
  show ?thesis
    by (simp add: test_host_def test_payload_def)
qed

text \<open>
  C8 (as amended): with the headers \<open>x-zeplo-id: foo\<close> and
  \<open>x-zeplo-start: 1970-01-01T00:32:50.000Z\<close>, no encryption, a body that the serializer
  parses to a payload and a schema that accepts it as it is, the handler is called once,
  with the payload, the job id \<open>foo\<close> and the start \<open>Date(1970000)\<close>:
  \<open>parseFloat\<close> reads the leading 1970 of the header, which is multiplied by 1000.
  When the handler resolves, \<open>respondTo\<close> returns the status 200 and the body
  \<open>{id: "foo"}\<close>.
\<close>

theorem respondTo_round_trip:
  assumes "get_prop hs ''x-zeplo-id'' = JString ''foo''"
    and "get_prop hs ''x-zeplo-start'' = JString ''1970-01-01T00:32:50.000Z''"
    and "decrypt (encryptor c) s = Inr s"
    and "parse (serializer c) s = Inr p"
    and "schema c p = Inr p"
    and "handler c p \<lparr>jobId = ''foo'', start = Date 1970000\<rparr> = Inr ()"
  shows "respondTo h c (JString s) hs
     = \<lparr>returned = Inr \<lparr>status = 200, body = JObject [(''id'', JString ''foo'')]\<rparr>,
        console_error = [],
        handler_calls = [(p, \<lparr>jobId = ''foo'', start = Date 1970000\<rparr>)]\<rparr>
     \<and> new_Date (times_1000 h (parseFloat h ''1970-01-01T00:32:50.000Z'')) = Date 1970000
     \<and> parseFloat h ''1970-01-01T00:32:50.000Z'' = Finite 1970"
proof -
  have pf: "parseFloat h ''1970-01-01T00:32:50.000Z'' = Finite 1970"
    by (simp add: parseFloat_def is_digit_def space1_def space2_def space3_def digits_value_def
        to_double_def safe_integer_def)
  then have dt: "new_Date (times_1000 h (parseFloat h ''1970-01-01T00:32:50.000Z'')) = Date 1970000"
    by (simp add: to_double_def safe_integer_def)
  have "decode h c (JString s) hs = Inr (p, \<lparr>jobId = ''foo'', start = Date 1970000\<rparr>)"
    using assms(1-5) dt by (simp add: decode_Inr)
  with assms(6) have "respondTo h c (JString s) hs
     = \<lparr>returned = Inr \<lparr>status = 200, body = JObject [(''id'', JString ''foo'')]\<rparr>,
        console_error = [],
        handler_calls = [(p, \<lparr>jobId = ''foo'', start = Date 1970000\<rparr>)]\<rparr>"
    by (simp add: respondTo_def respondTo_try_def)
  with pf dt show ?thesis
    by simp
qed

text \<open>
  The delivery of the tests: the handler is called with the start \<open>Date(1970000)\<close>, not
  \<open>Date(2790000)\<close>.
\<close>

theorem respondTo_round_trip_counterexample:
  "handler_calls (respondTo test_host default_client (JString test_body) test_headers)
     = [(test_payload, \<lparr>jobId = ''foo'', start = Date 1970000\<rparr>)]
   \<and> handler_calls (respondTo test_host default_client (JString test_body) test_headers)
     \<noteq> [(test_payload, \<lparr>jobId = ''foo'', start = Date 2790000\<rparr>)]
   \<and> parseFloat test_host ''1970-01-01T00:32:50.000Z'' = Finite 1970
   \<and> returned (respondTo test_host default_client (JString test_body) test_headers)
     = Inr \<lparr>status = 200, body = JObject [(''id'', JString ''foo'')]\<rparr>"
  by (simp add: test_delivery)
    (simp add: parseFloat_def is_digit_def space1_def space2_def space3_def digits_value_def
      to_double_def safe_integer_def)

theorem respondTo_round_trip_witness:
  "get_prop test_headers ''x-zeplo-id'' = JString ''foo''
   \<and> get_prop test_headers ''x-zeplo-start'' = JString ''1970-01-01T00:32:50.000Z''
   \<and> decrypt (encryptor default_client) test_body = Inr test_body
   \<and> parse (serializer default_client) test_body = Inr test_payload
   \<and> schema default_client test_payload = Inr test_payload
   \<and> handler default_client test_payload \<lparr>jobId = ''foo'', start = Date 1970000\<rparr> = Inr ()
   \<and> respondTo test_host default_client (JString test_body) test_headers
     = \<lparr>returned = Inr \<lparr>status = 200, body = JObject [(''id'', JString ''foo'')]\<rparr>,
        console_error = [],
        handler_calls = [(test_payload, \<lparr>jobId = ''foo'', start = Date 1970000\<rparr>)]\<rparr>"
proof -
  have hs: "get_prop test_headers ''x-zeplo-id'' = JString ''foo''"
    "get_prop test_headers ''x-zeplo-start'' = JString ''1970-01-01T00:32:50.000Z''"
    by (simp_all add: test_headers_def get_prop_def)
  have c: "decrypt (encryptor default_client) test_body = Inr test_body"
    "parse (serializer default_client) test_body = Inr test_payload"
    "schema default_client test_payload = Inr test_payload"
    "handler default_client test_payload \<lparr>jobId = ''foo'', start = Date 1970000\<rparr> = Inr ()"
    by (simp_all add: fixture_defs)
  from respondTo_round_trip [OF hs c, of test_host] hs c show ?thesis
    by simp
qed

end
